theory Spec2Isabelle
  imports Complex_Main
begin

section \<open>The Dyce contract decision engine: Credit17.py and credit4.py\<close>

text \<open>
  The repository holds two Streamlit scripts, \<^verbatim>\<open>Credit17.py\<close> and \<^verbatim>\<open>credit4.py\<close>. Each
  collects form inputs into module-level globals, loads an approval table from a
  spreadsheet, and defines \<^verbatim>\<open>run_decision()\<close>, which reads those globals and returns the
  verdict, the required approver and the list of reasons. Both functions are embedded
  below, statement by statement.

  Numbers: the integer widgets (scores, years, sites, contract term, recommended limit) are
  \<open>int\<close>; the float widgets (contract value, volume, margins, uplifts) and the spend and
  volume ceilings of the approval tables are \<open>real\<close>. The only float operation that rounds
  is the division of the exposure: \<open>run_decision_Credit17\<close> and \<open>run_decision_credit4\<close> take
  it as the exact quotient, and \<open>run_decision_Credit17_float\<close> and \<open>run_decision_credit4_float\<close>
  take the division as a parameter. Strings stay strings, since the code compares them with
  string literals.
\<close>

subsection \<open>Data\<close>

text \<open>Python's \<^verbatim>\<open>contract_value / contract_term\<close> raises when the term is zero.\<close>

datatype error = ZeroDivisionError

text \<open>
  The widgets of both scripts. A field that both scripts define has one name, as in the
  source; \<open>creditsafe_score\<close>, \<open>recommended_limit\<close>, \<open>has_ccjs\<close>, \<open>uplift_standing\<close> and
  \<open>uplift_unit\<close> exist only in Credit17.py, \<open>credit_score\<close> and \<open>business_type\<close> only in
  credit4.py. Each \<open>run_decision\<close> reads only the widgets of its own script.
\<close>

record inputs =
  creditsafe_score :: int
  recommended_limit :: int
  has_ccjs :: string
  uplift_standing :: real
  uplift_unit :: real
  credit_score :: int
  business_type :: string
  years_trading :: int
  smet_compatible :: string
  payment_terms :: string
  contract_value :: real
  annual_volume :: real
  contract_term :: int
  number_of_sites :: int
  unit_margin :: real
  sic_risk :: string

text \<open>The sidebar configuration of credit4.py (lines 47-50).\<close>

record sidebar =
  approve_threshold :: int
  refer_threshold :: int
  min_unit_margin :: real
  max_days_to_pay :: int

text \<open>
  A row of the \<^verbatim>\<open>Limits\<close> sheet read by Credit17.py, with its columns
  \<^verbatim>\<open>'Max Sites'\<close>, \<^verbatim>\<open>'Max Spend'\<close> (pounds), \<^verbatim>\<open>'Max Volume kWh'\<close> and \<^verbatim>\<open>'Role'\<close>.
\<close>

record limits_row =
  Limits_Max_Sites :: int
  Limits_Max_Spend :: real
  Limits_Max_Volume_kWh :: real
  Role :: string

text \<open>A row of the approval matrix read by credit4.py.\<close>

record matrix_row =
  Max_Sites :: int
  Max_Spend :: real
  Max_Annual_kWh :: real
  Approver :: string

subsection \<open>The mutable locals of \<open>run_decision\<close>\<close>

text \<open>
  Both functions mutate two locals: the verdict (\<^verbatim>\<open>decision\<close> in Credit17.py,
  \<^verbatim>\<open>recommendation\<close> in credit4.py) and the list \<^verbatim>\<open>reasons\<close>. The pair of them is passed
  through the statements. \<open>assign\<close> is the assignment to the verdict, \<open>reasons_append\<close> is
  \<^verbatim>\<open>reasons.append(r)\<close>, and \<open>py_if\<close> is an \<^verbatim>\<open>if\<close> statement without \<^verbatim>\<open>else\<close>.
\<close>

type_synonym locals = "string \<times> string list"

definition assign :: "string \<Rightarrow> locals \<Rightarrow> locals" where
  "assign d s = (d, snd s)"

definition reasons_append :: "string \<Rightarrow> locals \<Rightarrow> locals" where
  "reasons_append r s = (fst s, snd s @ [r])"

definition py_if :: "bool \<Rightarrow> (locals \<Rightarrow> locals) \<Rightarrow> locals \<Rightarrow> locals" where
  "py_if c body s = (if c then body s else s)"

subsection \<open>Credit17.py\<close>

text \<open>
  \<^verbatim>\<open>get_required_approver(sites, spend, volume)\<close>, lines 100-104: the loop over
  \<^verbatim>\<open>limits_df.iterrows()\<close> returns at the first row whose three ceilings hold.
\<close>

fun get_required_approver :: "limits_row list \<Rightarrow> int \<Rightarrow> real \<Rightarrow> real \<Rightarrow> string" where
  "get_required_approver [] sites spend volume = ''Managing Director''"
| "get_required_approver (row # rows) sites spend volume =
     (if sites \<le> Limits_Max_Sites row \<and> spend \<le> Limits_Max_Spend row
         \<and> volume \<le> Limits_Max_Volume_kWh row
      then Role row
      else get_required_approver rows sites spend volume)"

text \<open>Lines 112-120 of \<^verbatim>\<open>run_decision\<close>: the three decline checks.\<close>

definition hard_declines_Credit17 :: "inputs \<Rightarrow> real \<Rightarrow> locals \<Rightarrow> locals" where
  "hard_declines_Credit17 a three_month_exposure s0 =
     (let s1 = py_if (creditsafe_score a < 30 \<and> smet_compatible a = ''No'')
                 (\<lambda>s. reasons_append
                    ''Declined: Credit score below 30 and meter not SMET-compatible.''
                    (assign ''Declined'' s)) s0;
          s2 = py_if (has_ccjs a = ''Yes'')
                 (\<lambda>s. reasons_append ''Declined: CCJs/defaults present.''
                    (assign ''Declined'' s)) s1;
          s3 = py_if (three_month_exposure > real_of_int (recommended_limit a))
                 (\<lambda>s. reasons_append
                    ''Declined: 3-month exposure exceeds recommended limit.''
                    (assign ''Declined'' s)) s2
      in s3)"

text \<open>Lines 126-139: the referral checks, which only append reasons.\<close>

definition referral_checks_Credit17 :: "inputs \<Rightarrow> locals \<Rightarrow> locals" where
  "referral_checks_Credit17 a s0 =
     (let s1 = py_if (creditsafe_score a < 60)
                 (reasons_append ''Referral: Low credit score.'') s0;
          s2 = py_if (sic_risk a \<in> set [''High'', ''Very High''])
                 (reasons_append ''Referral: High sector risk.'') s1;
          s3 = py_if (payment_terms a \<noteq> ''7 Days Direct Debit'')
                 (reasons_append ''Referral: Non-standard payment terms.'') s2;
          s4 = py_if (unit_margin a < 0.5)
                 (reasons_append ''Referral: Unit margin below minimum.'') s3;
          s5 = py_if (uplift_standing a > 5.0)
                 (reasons_append ''Referral: Standing uplift too high.'') s4;
          s6 = py_if (uplift_unit a > 1.0)
                 (reasons_append ''Referral: Unit rate uplift too high.'') s5;
          s7 = py_if (years_trading a < 1)
                 (reasons_append ''Referral: Insufficient trading history.'') s6
      in s7)"

text \<open>
  \<^verbatim>\<open>run_decision()\<close>, lines 106-143. The result is the returned triple
  \<^verbatim>\<open>(decision, approver, reasons)\<close>; Python's \<^verbatim>\<open>None\<close> is \<open>None\<close>.
\<close>

definition run_decision_Credit17 ::
  "limits_row list \<Rightarrow> inputs \<Rightarrow> error + (string \<times> string option \<times> string list)" where
  "run_decision_Credit17 limits_df a =
     (if contract_term a = 0 then Inl ZeroDivisionError
      else
        let three_month_exposure = contract_value a / real_of_int (contract_term a) / 4;
            s0 = (''Approved'', []);
            s1 = hard_declines_Credit17 a three_month_exposure s0;
            s2 = py_if (creditsafe_score a < 30 \<and> smet_compatible a = ''Yes'')
                   (reasons_append
                      ''Customer is only eligible with Yu Energy due to SMET compatibility and low score.'')
                   s1;
            (s3, approver) =
              (if fst s2 \<noteq> ''Declined''
               then (referral_checks_Credit17 a s2,
                     Some (get_required_approver limits_df (number_of_sites a)
                             (contract_value a) (annual_volume a)))
               else (s2, None))
        in Inr (fst s3, (if fst s3 \<noteq> ''Declined'' then approver else None), snd s3))"

subsection \<open>credit4.py\<close>

text \<open>
  Lines 124-130 of \<^verbatim>\<open>run_decision\<close>: \<^verbatim>\<open>approver\<close> starts as the last argument and the loop
  over \<^verbatim>\<open>matrix_df.iterrows()\<close> overwrites it at the first matching row, then breaks.
\<close>

fun approval_matrix_scan :: "matrix_row list \<Rightarrow> int \<Rightarrow> real \<Rightarrow> real \<Rightarrow> string \<Rightarrow> string" where
  "approval_matrix_scan [] sites spend volume approver = approver"
| "approval_matrix_scan (row # rows) sites spend volume approver =
     (if sites \<le> Max_Sites row \<and> spend \<le> Max_Spend row \<and> volume \<le> Max_Annual_kWh row
      then Approver row
      else approval_matrix_scan rows sites spend volume approver)"

text \<open>Lines 87-98: the credit score block (\<^verbatim>\<open>if\<close> with a nested \<^verbatim>\<open>if\<close>/\<^verbatim>\<open>else\<close>, then \<^verbatim>\<open>elif\<close>).\<close>

definition credit_score_check_credit4 :: "sidebar \<Rightarrow> inputs \<Rightarrow> locals \<Rightarrow> locals" where
  "credit_score_check_credit4 cfg a s =
     (if credit_score a < refer_threshold cfg then
        (if credit_score a < 30 \<and> smet_compatible a = ''Yes''
         then reasons_append
                ''Credit Score <30: Only Yu Energy permitted due to SMET compatibility''
                (assign ''Approved with Yu Energy Only'' s)
         else reasons_append ''Credit Score below minimum threshold''
                (assign ''Declined'' s))
      else if refer_threshold cfg \<le> credit_score a \<and> credit_score a < approve_threshold cfg
      then reasons_append ''Credit Score requires referral'' (assign ''Refer'' s)
      else s)"

text \<open>Lines 100-117: trading history, payment terms, SIC risk and unit margin.\<close>

definition referral_checks_credit4 :: "sidebar \<Rightarrow> inputs \<Rightarrow> locals \<Rightarrow> locals" where
  "referral_checks_credit4 cfg a s0 =
     (let s1 = (if business_type a \<noteq> ''Limited Company'' \<and> years_trading a < 1
                then reasons_append
                       ''Insufficient trading history for Sole Trader/Partnership''
                       (assign ''Refer'' s0)
                else if business_type a = ''Limited Company'' \<and> years_trading a < 2
                then reasons_append ''Insufficient trading history for Limited Company''
                       (assign ''Refer'' s0)
                else s0);
          s2 = py_if (payment_terms a \<noteq> ''14 Days DD'' \<and> payment_terms a \<noteq> ''14 Days BACS'')
                 (\<lambda>s. reasons_append ''Payment terms exceed acceptable'' (assign ''Refer'' s))
                 s1;
          s3 = py_if (sic_risk a \<in> set [''High'', ''Very High''])
                 (\<lambda>s. reasons_append ''SIC Risk too high'' (assign ''Refer'' s)) s2;
          s4 = py_if (unit_margin a < min_unit_margin cfg)
                 (\<lambda>s. reasons_append ''Margin below minimum allowed'' (assign ''Refer'' s))
                 s3
      in s4)"

text \<open>
  The reason of line 137. Its dash is U+2013, three bytes in UTF-8.
\<close>

definition md_reason :: string where
  "md_reason =
     ''Approval by Managing Director required '' @ [CHR 0xE2, CHR 0x80, CHR 0x93]
     @ '' please email PDF report to md@dyceenergy.com''"

text \<open>
  \<^verbatim>\<open>run_decision()\<close>, lines 82-140. The argument \<open>now\<close> is what
  \<^verbatim>\<open>datetime.now().strftime(...)\<close> returns at line 139. The result is the returned tuple
  \<^verbatim>\<open>(recommendation, approver, reasons, exposure_estimate, exposure_passed, timestamp)\<close>.
\<close>

definition run_decision_credit4 ::
  "sidebar \<Rightarrow> matrix_row list \<Rightarrow> inputs \<Rightarrow> string
     \<Rightarrow> error + (string \<times> string option \<times> string list \<times> real \<times> bool \<times> string)" where
  "run_decision_credit4 cfg matrix_df a now =
     (let s0 = (''Approved'', []);
          s1 = credit_score_check_credit4 cfg a s0;
          s2 = referral_checks_credit4 cfg a s1
      in if contract_term a = 0 then Inl ZeroDivisionError
         else
           let exposure_estimate = contract_value a / real_of_int (contract_term a) / 4;
               exposure_passed = (exposure_estimate \<le> contract_value a);
               approver = approval_matrix_scan matrix_df (number_of_sites a)
                            (contract_value a) (annual_volume a) ''Managing Director'';
               (approver', s3) =
                 (if fst s2 = ''Approved with Yu Energy Only''
                  then (Some ''Yu Energy Only'', s2)
                  else if fst s2 = ''Declined'' then (None, s2)
                  else if approver = ''Managing Director''
                  then (Some approver, reasons_append md_reason s2)
                  else (Some approver, s2));
               timestamp = now
           in Inr (fst s3, approver', snd s3, exposure_estimate, exposure_passed,
                   timestamp))"

subsection \<open>Float division as a parameter\<close>

text \<open>
  Python's \<^verbatim>\<open>/\<close> on floats returns the quotient rounded to a double. The two functions
  below are \<^verbatim>\<open>run_decision()\<close> of Credit17.py and of credit4.py once more, line by line as
  above, with \<open>fdiv\<close> standing for that division in
  \<^verbatim>\<open>contract_value / contract_term / 4\<close> (two divisions, left to right). Nothing is assumed
  of \<open>fdiv\<close>, so what is proved of them holds of the doubles the scripts compute. Division
  by a zero term still raises; division by 4 does not.
\<close>

definition run_decision_Credit17_float ::
  "(real \<Rightarrow> real \<Rightarrow> real) \<Rightarrow> limits_row list \<Rightarrow> inputs
     \<Rightarrow> error + (string \<times> string option \<times> string list)" where
  "run_decision_Credit17_float fdiv limits_df a =
     (if contract_term a = 0 then Inl ZeroDivisionError
      else
        let three_month_exposure =
              fdiv (fdiv (contract_value a) (real_of_int (contract_term a))) 4;
            s0 = (''Approved'', []);
            s1 = hard_declines_Credit17 a three_month_exposure s0;
            s2 = py_if (creditsafe_score a < 30 \<and> smet_compatible a = ''Yes'')
                   (reasons_append
                      ''Customer is only eligible with Yu Energy due to SMET compatibility and low score.'')
                   s1;
            (s3, approver) =
              (if fst s2 \<noteq> ''Declined''
               then (referral_checks_Credit17 a s2,
                     Some (get_required_approver limits_df (number_of_sites a)
                             (contract_value a) (annual_volume a)))
               else (s2, None))
        in Inr (fst s3, (if fst s3 \<noteq> ''Declined'' then approver else None), snd s3))"

definition run_decision_credit4_float ::
  "(real \<Rightarrow> real \<Rightarrow> real) \<Rightarrow> sidebar \<Rightarrow> matrix_row list \<Rightarrow> inputs \<Rightarrow> string
     \<Rightarrow> error + (string \<times> string option \<times> string list \<times> real \<times> bool \<times> string)" where
  "run_decision_credit4_float fdiv cfg matrix_df a now =
     (let s0 = (''Approved'', []);
          s1 = credit_score_check_credit4 cfg a s0;
          s2 = referral_checks_credit4 cfg a s1
      in if contract_term a = 0 then Inl ZeroDivisionError
         else
           let exposure_estimate =
                 fdiv (fdiv (contract_value a) (real_of_int (contract_term a))) 4;
               exposure_passed = (exposure_estimate \<le> contract_value a);
               approver = approval_matrix_scan matrix_df (number_of_sites a)
                            (contract_value a) (annual_volume a) ''Managing Director'';
               (approver', s3) =
                 (if fst s2 = ''Approved with Yu Energy Only''
                  then (Some ''Yu Energy Only'', s2)
                  else if fst s2 = ''Declined'' then (None, s2)
                  else if approver = ''Managing Director''
                  then (Some approver, reasons_append md_reason s2)
                  else (Some approver, s2));
               timestamp = now
           in Inr (fst s3, approver', snd s3, exposure_estimate, exposure_passed,
                   timestamp))"

subsection \<open>Notions used to state the properties\<close>

text \<open>
  A row dominates an application when its three ceilings hold: the test of line 102 of
  Credit17.py and of lines 126-128 of credit4.py.
\<close>

definition limits_row_matches :: "int \<Rightarrow> real \<Rightarrow> real \<Rightarrow> limits_row \<Rightarrow> bool" where
  "limits_row_matches sites spend volume row \<longleftrightarrow>
     sites \<le> Limits_Max_Sites row \<and> spend \<le> Limits_Max_Spend row
     \<and> volume \<le> Limits_Max_Volume_kWh row"

definition matrix_row_matches :: "int \<Rightarrow> real \<Rightarrow> real \<Rightarrow> matrix_row \<Rightarrow> bool" where
  "matrix_row_matches sites spend volume row \<longleftrightarrow>
     sites \<le> Max_Sites row \<and> spend \<le> Max_Spend row \<and> volume \<le> Max_Annual_kWh row"

text \<open>
  Seniority as the table's order induces it: the position of the first row that
  satisfies \<open>P\<close>, and the length of the table when no row does (the fallback role).
\<close>

primrec first_match_index :: "('a \<Rightarrow> bool) \<Rightarrow> 'a list \<Rightarrow> nat" where
  "first_match_index P [] = 0"
| "first_match_index P (x # xs) = (if P x then 0 else Suc (first_match_index P xs))"

definition approver_rank_Credit17 :: "limits_row list \<Rightarrow> int \<Rightarrow> real \<Rightarrow> real \<Rightarrow> nat" where
  "approver_rank_Credit17 tiers sites spend volume =
     first_match_index (limits_row_matches sites spend volume) tiers"

definition approver_rank_credit4 :: "matrix_row list \<Rightarrow> int \<Rightarrow> real \<Rightarrow> real \<Rightarrow> nat" where
  "approver_rank_credit4 tiers sites spend volume =
     first_match_index (matrix_row_matches sites spend volume) tiers"

text \<open>
  Seniority of a role name: the position of its first occurrence among the roles of the
  table, and the length of the table for a name that does not occur there.
\<close>

definition role_seniority :: "string list \<Rightarrow> string \<Rightarrow> nat" where
  "role_seniority roles r = first_match_index (\<lambda>x. x = r) roles"

text \<open>Projections of the result of credit4's \<open>run_decision\<close>.\<close>

definition without_timestamp ::
  "error + (string \<times> string option \<times> string list \<times> real \<times> bool \<times> string)
     \<Rightarrow> error + (string \<times> string option \<times> string list \<times> real \<times> bool)" where
  "without_timestamp = map_sum id (\<lambda>(v, ap, rs, e, p, t). (v, ap, rs, e, p))"

definition verdict_approver_reasons ::
  "error + (string \<times> string option \<times> string list \<times> real \<times> bool \<times> string)
     \<Rightarrow> error + (string \<times> string option \<times> string list)" where
  "verdict_approver_reasons = map_sum id (\<lambda>(v, ap, rs, e, p, t). (v, ap, rs))"

definition verdict_and_reasons ::
  "error + (string \<times> string option \<times> string list \<times> real \<times> bool \<times> string)
     \<Rightarrow> error + (string \<times> string list)" where
  "verdict_and_reasons = map_sum id (\<lambda>(v, ap, rs, e, p, t). (v, rs))"

text \<open>Two form states agree on the widgets that a script defines.\<close>

definition same_Credit17_inputs :: "inputs \<Rightarrow> inputs \<Rightarrow> bool" where
  "same_Credit17_inputs a b \<longleftrightarrow>
     creditsafe_score a = creditsafe_score b \<and> recommended_limit a = recommended_limit b
     \<and> years_trading a = years_trading b \<and> smet_compatible a = smet_compatible b
     \<and> has_ccjs a = has_ccjs b \<and> payment_terms a = payment_terms b
     \<and> contract_value a = contract_value b \<and> annual_volume a = annual_volume b
     \<and> contract_term a = contract_term b \<and> number_of_sites a = number_of_sites b
     \<and> unit_margin a = unit_margin b \<and> uplift_standing a = uplift_standing b
     \<and> uplift_unit a = uplift_unit b \<and> sic_risk a = sic_risk b"

definition same_credit4_inputs :: "inputs \<Rightarrow> inputs \<Rightarrow> bool" where
  "same_credit4_inputs a b \<longleftrightarrow>
     business_type a = business_type b \<and> years_trading a = years_trading b
     \<and> credit_score a = credit_score b \<and> smet_compatible a = smet_compatible b
     \<and> payment_terms a = payment_terms b \<and> number_of_sites a = number_of_sites b
     \<and> annual_volume a = annual_volume b \<and> contract_value a = contract_value b
     \<and> contract_term a = contract_term b \<and> unit_margin a = unit_margin b
     \<and> sic_risk a = sic_risk b"

subsection \<open>Concrete form states and tables\<close>

text \<open>The defaults of the sidebar widgets, lines 47-50 of credit4.py.\<close>

definition default_sidebar :: sidebar where
  "default_sidebar =
     \<lparr>approve_threshold = 80, refer_threshold = 60, min_unit_margin = 0.5,
      max_days_to_pay = 14\<rparr>"

text \<open>
  A form state on which no check of Credit17.py fires, and one on which no check of
  credit4.py fires under the default sidebar. They differ in the payment terms: each
  script offers and accepts its own.
\<close>

definition clean_Credit17 :: inputs where
  "clean_Credit17 =
     \<lparr>creditsafe_score = 85, recommended_limit = 5000, has_ccjs = ''No'',
      uplift_standing = 2, uplift_unit = 0.5, credit_score = 85,
      business_type = ''Limited Company'', years_trading = 5, smet_compatible = ''Yes'',
      payment_terms = ''7 Days Direct Debit'', contract_value = 10000,
      annual_volume = 50000, contract_term = 2, number_of_sites = 1, unit_margin = 0.8,
      sic_risk = ''Medium''\<rparr>"

definition clean_credit4 :: inputs where
  "clean_credit4 = clean_Credit17\<lparr>payment_terms := ''14 Days DD''\<rparr>"

definition example_limits :: "limits_row list" where
  "example_limits =
     [\<lparr>Limits_Max_Sites = 5, Limits_Max_Spend = 50000, Limits_Max_Volume_kWh = 100000,
       Role = ''Sales Manager''\<rparr>,
      \<lparr>Limits_Max_Sites = 5, Limits_Max_Spend = 50000, Limits_Max_Volume_kWh = 100000,
       Role = ''Shadowed Duplicate''\<rparr>,
      \<lparr>Limits_Max_Sites = 20, Limits_Max_Spend = 250000, Limits_Max_Volume_kWh = 1000000,
       Role = ''Commercial Director''\<rparr>]"

definition example_matrix :: "matrix_row list" where
  "example_matrix =
     [\<lparr>Max_Sites = 5, Max_Spend = 50000, Max_Annual_kWh = 100000,
       Approver = ''Sales Manager''\<rparr>,
      \<lparr>Max_Sites = 5, Max_Spend = 50000, Max_Annual_kWh = 100000,
       Approver = ''Shadowed Duplicate''\<rparr>,
      \<lparr>Max_Sites = 20, Max_Spend = 250000, Max_Annual_kWh = 1000000,
       Approver = ''Commercial Director''\<rparr>]"

section \<open>Properties\<close>

subsection \<open>The statements of \<open>run_decision\<close>, one block at a time\<close>

lemma fst_assign: "fst (assign d s) = d"
  by (simp add: assign_def)

lemma snd_assign: "snd (assign d s) = snd s"
  by (simp add: assign_def)

lemma fst_reasons_append: "fst (reasons_append r s) = fst s"
  by (simp add: reasons_append_def)

lemma snd_reasons_append: "snd (reasons_append r s) = snd s @ [r]"
  by (simp add: reasons_append_def)

lemma fst_py_if_append: "fst (py_if c (reasons_append r) s) = fst s"
  by (simp add: py_if_def fst_reasons_append)

lemma snd_py_if_append: "snd (py_if c (reasons_append r) s) = snd s @ (if c then [r] else [])"
  by (simp add: py_if_def snd_reasons_append)

lemma fst_py_if_assign_append:
  "fst (py_if c (\<lambda>s. reasons_append r (assign d s)) s) = (if c then d else fst s)"
  by (simp add: py_if_def fst_reasons_append fst_assign)

lemma snd_py_if_assign_append:
  "snd (py_if c (\<lambda>s. reasons_append r (assign d s)) s) = snd s @ (if c then [r] else [])"
  by (simp add: py_if_def snd_reasons_append snd_assign)

lemmas locals_simps =
  fst_py_if_append snd_py_if_append fst_py_if_assign_append snd_py_if_assign_append

lemma fst_hard_declines_Credit17:
  "fst (hard_declines_Credit17 a e s) =
     (if (creditsafe_score a < 30 \<and> smet_compatible a = ''No'') \<or> has_ccjs a = ''Yes''
         \<or> e > real_of_int (recommended_limit a)
      then ''Declined'' else fst s)"
  by (simp add: hard_declines_Credit17_def Let_def locals_simps)

lemma snd_hard_declines_Credit17:
  "snd (hard_declines_Credit17 a e s) =
     snd s
     @ (if creditsafe_score a < 30 \<and> smet_compatible a = ''No''
        then [''Declined: Credit score below 30 and meter not SMET-compatible.''] else [])
     @ (if has_ccjs a = ''Yes'' then [''Declined: CCJs/defaults present.''] else [])
     @ (if e > real_of_int (recommended_limit a)
        then [''Declined: 3-month exposure exceeds recommended limit.''] else [])"
  by (simp add: hard_declines_Credit17_def Let_def locals_simps)

lemma fst_referral_checks_Credit17: "fst (referral_checks_Credit17 a s) = fst s"
  by (simp add: referral_checks_Credit17_def Let_def locals_simps)

lemma snd_referral_checks_Credit17:
  "snd (referral_checks_Credit17 a s) =
     snd s
     @ (if creditsafe_score a < 60 then [''Referral: Low credit score.''] else [])
     @ (if sic_risk a = ''High'' \<or> sic_risk a = ''Very High''
        then [''Referral: High sector risk.''] else [])
     @ (if payment_terms a \<noteq> ''7 Days Direct Debit''
        then [''Referral: Non-standard payment terms.''] else [])
     @ (if unit_margin a < 0.5 then [''Referral: Unit margin below minimum.''] else [])
     @ (if uplift_standing a > 5.0 then [''Referral: Standing uplift too high.''] else [])
     @ (if uplift_unit a > 1.0 then [''Referral: Unit rate uplift too high.''] else [])
     @ (if years_trading a < 1 then [''Referral: Insufficient trading history.''] else [])"
  by (simp add: referral_checks_Credit17_def Let_def locals_simps)


lemma run_decision_Credit17_zero_term:
  "contract_term a = 0 \<Longrightarrow> run_decision_Credit17 limits_df a = Inl ZeroDivisionError"
  by (simp add: run_decision_Credit17_def)

lemma run_decision_Credit17_declined:
  assumes "contract_term a \<noteq> 0"
    and "(creditsafe_score a < 30 \<and> smet_compatible a = ''No'') \<or> has_ccjs a = ''Yes''
         \<or> contract_value a / real_of_int (contract_term a) / 4 > real_of_int (recommended_limit a)"
  shows "run_decision_Credit17 limits_df a =
     Inr (''Declined'', None,
       (if creditsafe_score a < 30 \<and> smet_compatible a = ''No''
        then [''Declined: Credit score below 30 and meter not SMET-compatible.''] else [])
       @ (if has_ccjs a = ''Yes'' then [''Declined: CCJs/defaults present.''] else [])
       @ (if contract_value a / real_of_int (contract_term a) / 4 > real_of_int (recommended_limit a)
          then [''Declined: 3-month exposure exceeds recommended limit.''] else [])
       @ (if creditsafe_score a < 30 \<and> smet_compatible a = ''Yes''
          then [''Customer is only eligible with Yu Energy due to SMET compatibility and low score.'']
          else []))"
proof -
  let ?e = "contract_value a / real_of_int (contract_term a) / 4"
  let ?s1 = "hard_declines_Credit17 a ?e (''Approved'', [])"
  have d1: "fst ?s1 = ''Declined''"
    using assms(2) by (simp add: fst_hard_declines_Credit17 del: divide_divide_eq_left)
  show ?thesis
    using assms(1)
    by (simp add: run_decision_Credit17_def Let_def locals_simps d1
        snd_hard_declines_Credit17 del: divide_divide_eq_left)
qed

lemma run_decision_Credit17_not_declined:
  assumes "contract_term a \<noteq> 0"
    and "\<not> (creditsafe_score a < 30 \<and> smet_compatible a = ''No'')"
    and "has_ccjs a \<noteq> ''Yes''"
    and "\<not> contract_value a / real_of_int (contract_term a) / 4 > real_of_int (recommended_limit a)"
  shows "run_decision_Credit17 limits_df a =
     Inr (''Approved'',
       Some (get_required_approver limits_df (number_of_sites a) (contract_value a)
               (annual_volume a)),
       (if creditsafe_score a < 30 \<and> smet_compatible a = ''Yes''
        then [''Customer is only eligible with Yu Energy due to SMET compatibility and low score.'']
        else [])
       @ (if creditsafe_score a < 60 then [''Referral: Low credit score.''] else [])
       @ (if sic_risk a = ''High'' \<or> sic_risk a = ''Very High''
          then [''Referral: High sector risk.''] else [])
       @ (if payment_terms a \<noteq> ''7 Days Direct Debit''
          then [''Referral: Non-standard payment terms.''] else [])
       @ (if unit_margin a < 0.5 then [''Referral: Unit margin below minimum.''] else [])
       @ (if uplift_standing a > 5.0 then [''Referral: Standing uplift too high.''] else [])
       @ (if uplift_unit a > 1.0 then [''Referral: Unit rate uplift too high.''] else [])
       @ (if years_trading a < 1 then [''Referral: Insufficient trading history.''] else []))"
proof -
  let ?e = "contract_value a / real_of_int (contract_term a) / 4"
  let ?s1 = "hard_declines_Credit17 a ?e (''Approved'', [])"
  have d1: "fst ?s1 = ''Approved''" and r1: "snd ?s1 = []"
    using assms
    by (simp_all add: fst_hard_declines_Credit17 snd_hard_declines_Credit17
        del: divide_divide_eq_left)
  show ?thesis
    using assms(1)
    by (simp add: run_decision_Credit17_def Let_def locals_simps d1 r1
        fst_referral_checks_Credit17 snd_referral_checks_Credit17
        del: divide_divide_eq_left)
qed


lemma fst_credit_score_check_credit4:
  "fst (credit_score_check_credit4 cfg a s) =
     (if credit_score a < refer_threshold cfg
      then (if credit_score a < 30 \<and> smet_compatible a = ''Yes''
            then ''Approved with Yu Energy Only'' else ''Declined'')
      else if credit_score a < approve_threshold cfg then ''Refer'' else fst s)"
  by (simp add: credit_score_check_credit4_def fst_reasons_append fst_assign)

lemma snd_credit_score_check_credit4:
  "snd (credit_score_check_credit4 cfg a s) =
     snd s @
     (if credit_score a < refer_threshold cfg
      then (if credit_score a < 30 \<and> smet_compatible a = ''Yes''
            then [''Credit Score <30: Only Yu Energy permitted due to SMET compatibility'']
            else [''Credit Score below minimum threshold''])
      else if credit_score a < approve_threshold cfg
      then [''Credit Score requires referral''] else [])"
  by (simp add: credit_score_check_credit4_def snd_reasons_append snd_assign)

lemma fst_referral_checks_credit4:
  "fst (referral_checks_credit4 cfg a s) =
     (if (business_type a \<noteq> ''Limited Company'' \<and> years_trading a < 1)
         \<or> (business_type a = ''Limited Company'' \<and> years_trading a < 2)
         \<or> (payment_terms a \<noteq> ''14 Days DD'' \<and> payment_terms a \<noteq> ''14 Days BACS'')
         \<or> (sic_risk a = ''High'' \<or> sic_risk a = ''Very High'')
         \<or> unit_margin a < min_unit_margin cfg
      then ''Refer'' else fst s)"
  by (simp add: referral_checks_credit4_def Let_def locals_simps fst_reasons_append fst_assign)

lemma snd_referral_checks_credit4:
  "snd (referral_checks_credit4 cfg a s) =
     snd s
     @ (if business_type a \<noteq> ''Limited Company'' \<and> years_trading a < 1
        then [''Insufficient trading history for Sole Trader/Partnership'']
        else if business_type a = ''Limited Company'' \<and> years_trading a < 2
        then [''Insufficient trading history for Limited Company''] else [])
     @ (if payment_terms a \<noteq> ''14 Days DD'' \<and> payment_terms a \<noteq> ''14 Days BACS''
        then [''Payment terms exceed acceptable''] else [])
     @ (if sic_risk a = ''High'' \<or> sic_risk a = ''Very High''
        then [''SIC Risk too high''] else [])
     @ (if unit_margin a < min_unit_margin cfg
        then [''Margin below minimum allowed''] else [])"
  by (simp add: referral_checks_credit4_def Let_def locals_simps snd_reasons_append snd_assign)

lemma run_decision_credit4_zero_term:
  "contract_term a = 0 \<Longrightarrow> run_decision_credit4 cfg matrix_df a now = Inl ZeroDivisionError"
  by (simp add: run_decision_credit4_def)

lemma run_decision_credit4_unfold:
  assumes "contract_term a \<noteq> 0"
  shows "run_decision_credit4 cfg matrix_df a now =
     (let s2 = referral_checks_credit4 cfg a
                 (credit_score_check_credit4 cfg a (''Approved'', []));
          approver = approval_matrix_scan matrix_df (number_of_sites a) (contract_value a)
                       (annual_volume a) ''Managing Director''
      in Inr (fst s2,
              (if fst s2 = ''Approved with Yu Energy Only'' then Some ''Yu Energy Only''
               else if fst s2 = ''Declined'' then None else Some approver),
              snd s2 @ (if fst s2 \<noteq> ''Approved with Yu Energy Only'' \<and> fst s2 \<noteq> ''Declined''
                           \<and> approver = ''Managing Director'' then [md_reason] else []),
              contract_value a / real_of_int (contract_term a) / 4,
              contract_value a / real_of_int (contract_term a) / 4 \<le> contract_value a,
              now))"
  using assms
  by (simp add: run_decision_credit4_def Let_def fst_reasons_append snd_reasons_append
      del: divide_divide_eq_left)

subsection \<open>The scan of the approval table\<close>

lemma get_required_approver_find:
  "get_required_approver tiers sites spend volume =
     (case List.find (limits_row_matches sites spend volume) tiers of
        Some row \<Rightarrow> Role row | None \<Rightarrow> ''Managing Director'')"
  by (induction tiers) (simp_all add: limits_row_matches_def)

lemma approval_matrix_scan_find:
  "approval_matrix_scan tiers sites spend volume fallback =
     (case List.find (matrix_row_matches sites spend volume) tiers of
        Some row \<Rightarrow> Approver row | None \<Rightarrow> fallback)"
  by (induction tiers) (simp_all add: matrix_row_matches_def)

lemma find_first_match:
  "\<forall>x\<in>set pre. \<not> P x \<Longrightarrow> P r \<Longrightarrow> List.find P (pre @ r # post) = Some r"
  by (induction pre) simp_all

lemma find_no_match: "\<forall>x\<in>set xs. \<not> P x \<Longrightarrow> List.find P xs = None"
  by (induction xs) simp_all

lemma first_match_index_mono:
  "(\<And>x. Q x \<Longrightarrow> P x) \<Longrightarrow> first_match_index P xs \<le> first_match_index Q xs"
  by (induction xs) auto

lemma first_match_index_le: "first_match_index P xs \<le> length xs"
  by (induction xs) auto

lemma find_first_match_index:
  "List.find P xs =
     (if first_match_index P xs < length xs then Some (xs ! first_match_index P xs) else None)"
  by (induction xs) auto

lemma limits_row_matches_antimono:
  "sites \<le> sites' \<Longrightarrow> spend \<le> spend' \<Longrightarrow> volume \<le> volume' \<Longrightarrow>
   limits_row_matches sites' spend' volume' row \<Longrightarrow> limits_row_matches sites spend volume row"
  by (auto simp: limits_row_matches_def)

lemma matrix_row_matches_antimono:
  "sites \<le> sites' \<Longrightarrow> spend \<le> spend' \<Longrightarrow> volume \<le> volume' \<Longrightarrow>
   matrix_row_matches sites' spend' volume' row \<Longrightarrow> matrix_row_matches sites spend volume row"
  by (auto simp: matrix_row_matches_def)

lemma find_result_in_set:
  "(case List.find P xs of Some r \<Rightarrow> f r | None \<Rightarrow> d) \<in> insert d (f ` set xs)"
  by (induction xs) auto

lemma first_occurrence_of_resolved_role:
  assumes "distinct (map f xs)" and "d \<notin> f ` set xs"
  shows "first_match_index (\<lambda>x. x = (case List.find P xs of Some r \<Rightarrow> f r | None \<Rightarrow> d))
           (map f xs) = first_match_index P xs"
  using assms
proof (induction xs)
  case Nil
  then show ?case by simp
next
  case (Cons x xs)
  show ?case
  proof (cases "P x")
    case True
    then show ?thesis by simp
  next
    case False
    have "(case List.find P xs of Some r \<Rightarrow> f r | None \<Rightarrow> d) \<in> insert d (f ` set xs)"
      by (rule find_result_in_set)
    with Cons.prems have "f x \<noteq> (case List.find P xs of Some r \<Rightarrow> f r | None \<Rightarrow> d)"
      by auto
    with False Cons show ?thesis by simp
  qed
qed

lemma role_seniority_Credit17:
  assumes "distinct (map Role tiers)" and "''Managing Director'' \<notin> Role ` set tiers"
  shows "role_seniority (map Role tiers) (get_required_approver tiers sites spend volume)
           = approver_rank_Credit17 tiers sites spend volume"
  unfolding role_seniority_def approver_rank_Credit17_def get_required_approver_find
  using assms by (rule first_occurrence_of_resolved_role)

lemma role_seniority_credit4:
  assumes "distinct (map Approver tiers)" and "''Managing Director'' \<notin> Approver ` set tiers"
  shows "role_seniority (map Approver tiers)
           (approval_matrix_scan tiers sites spend volume ''Managing Director'')
           = approver_rank_credit4 tiers sites spend volume"
  unfolding role_seniority_def approver_rank_credit4_def approval_matrix_scan_find
  using assms by (rule first_occurrence_of_resolved_role)

subsection \<open>What \<open>run_decision\<close> reads\<close>

lemma same_Credit17_inputs_stages:
  assumes "same_Credit17_inputs a b"
  shows "hard_declines_Credit17 a = hard_declines_Credit17 b"
    and "referral_checks_Credit17 a = referral_checks_Credit17 b"
  using assms
  by (simp_all add: fun_eq_iff same_Credit17_inputs_def hard_declines_Credit17_def
      referral_checks_Credit17_def)

lemma same_credit4_inputs_stages:
  assumes "same_credit4_inputs a b"
  shows "credit_score_check_credit4 cfg a = credit_score_check_credit4 cfg b"
    and "referral_checks_credit4 cfg a = referral_checks_credit4 cfg b"
  using assms
  by (simp_all add: fun_eq_iff same_credit4_inputs_def credit_score_check_credit4_def
      referral_checks_credit4_def)

lemma without_timestamp_run_decision_credit4:
  "without_timestamp (run_decision_credit4 cfg matrix_df a now) =
     without_timestamp (run_decision_credit4 cfg matrix_df a now')"
  by (simp add: run_decision_credit4_def without_timestamp_def Let_def split_def)

lemma quarter_share_le:
  fixes x :: real and n :: int
  assumes "0 \<le> x" and "1 \<le> n"
  shows "x / real_of_int n / 4 \<le> x"
proof -
  define q where "q = x / real_of_int n"
  have "q \<le> x / 1"
    unfolding q_def using assms by (intro divide_left_mono) simp_all
  then have "q \<le> x" by simp
  moreover have "0 \<le> q"
    unfolding q_def using assms by simp
  ultimately have "q / 4 \<le> x" by linarith
  then show ?thesis unfolding q_def .
qed

lemma credit4_stages_ignore_exposure_inputs:
  "credit_score_check_credit4 cfg (a\<lparr>contract_term := ct, recommended_limit := l\<rparr>)
     = credit_score_check_credit4 cfg a"
  "referral_checks_credit4 cfg (a\<lparr>contract_term := ct, recommended_limit := l\<rparr>)
     = referral_checks_credit4 cfg a"
  by (simp_all add: fun_eq_iff credit_score_check_credit4_def referral_checks_credit4_def)

lemmas run_decision_defs =
  run_decision_Credit17_def hard_declines_Credit17_def referral_checks_Credit17_def
  run_decision_credit4_def credit_score_check_credit4_def referral_checks_credit4_def
  py_if_def assign_def reasons_append_def Let_def

lemmas example_defs =
  clean_Credit17_def clean_credit4_def example_limits_def example_matrix_def
  default_sidebar_def

subsection \<open>The verdicts of Credit17.py\<close>

text \<open>
  In Credit17.py every decline condition that holds sets the verdict to Declined and
  records its own reason; the result is then Declined with no approver.
\<close>

lemma run_decision_Credit17_hard_declines:
  assumes "contract_term a \<noteq> 0"
    and "(creditsafe_score a < 30 \<and> smet_compatible a = ''No'') \<or> has_ccjs a = ''Yes''
         \<or> contract_value a / real_of_int (contract_term a) / 4 > real_of_int (recommended_limit a)"
  shows "\<exists>rs. run_decision_Credit17 limits_df a = Inr (''Declined'', None, rs)
     \<and> (creditsafe_score a < 30 \<and> smet_compatible a = ''No'' \<longrightarrow>
          ''Declined: Credit score below 30 and meter not SMET-compatible.'' \<in> set rs)
     \<and> (has_ccjs a = ''Yes'' \<longrightarrow> ''Declined: CCJs/defaults present.'' \<in> set rs)
     \<and> (contract_value a / real_of_int (contract_term a) / 4 > real_of_int (recommended_limit a)
          \<longrightarrow> ''Declined: 3-month exposure exceeds recommended limit.'' \<in> set rs)"
  by (simp add: run_decision_Credit17_declined [OF assms] del: divide_divide_eq_left)

lemma run_decision_Credit17_cases:
  assumes "contract_term a \<noteq> 0"
  shows "(\<exists>rs. run_decision_Credit17 limits_df a = Inr (''Declined'', None, rs))
     \<or> (\<exists>rs. run_decision_Credit17 limits_df a =
           Inr (''Approved'',
                Some (get_required_approver limits_df (number_of_sites a) (contract_value a)
                        (annual_volume a)), rs))"
proof (cases "(creditsafe_score a < 30 \<and> smet_compatible a = ''No'') \<or> has_ccjs a = ''Yes''
     \<or> contract_value a / real_of_int (contract_term a) / 4 > real_of_int (recommended_limit a)")
  case True
  show ?thesis
    by (simp add: run_decision_Credit17_declined [OF assms True] del: divide_divide_eq_left)
next
  case False
  then show ?thesis
    using assms by (simp add: run_decision_Credit17_not_declined del: divide_divide_eq_left)
qed

lemmas credit4_stage_simps =
  fst_referral_checks_credit4 snd_referral_checks_credit4
  fst_credit_score_check_credit4 snd_credit_score_check_credit4

subsection \<open>The exposure as the scripts compute it\<close>

lemma run_decision_Credit17_float_exact:
  "run_decision_Credit17_float (/) limits_df a = run_decision_Credit17 limits_df a"
  unfolding run_decision_Credit17_float_def run_decision_Credit17_def ..

lemma run_decision_credit4_float_exact:
  "run_decision_credit4_float (/) cfg matrix_df a now = run_decision_credit4 cfg matrix_df a now"
  unfolding run_decision_credit4_float_def run_decision_credit4_def ..

lemma run_decision_Credit17_float_over_limit:
  assumes "contract_term a \<noteq> 0"
    and "fdiv (fdiv (contract_value a) (real_of_int (contract_term a))) 4
           > real_of_int (recommended_limit a)"
  shows "run_decision_Credit17_float fdiv limits_df a =
     Inr (''Declined'', None,
       (if creditsafe_score a < 30 \<and> smet_compatible a = ''No''
        then [''Declined: Credit score below 30 and meter not SMET-compatible.''] else [])
       @ (if has_ccjs a = ''Yes'' then [''Declined: CCJs/defaults present.''] else [])
       @ [''Declined: 3-month exposure exceeds recommended limit.'']
       @ (if creditsafe_score a < 30 \<and> smet_compatible a = ''Yes''
          then [''Customer is only eligible with Yu Energy due to SMET compatibility and low score.'']
          else []))"
proof -
  let ?e = "fdiv (fdiv (contract_value a) (real_of_int (contract_term a))) 4"
  let ?s1 = "hard_declines_Credit17 a ?e (''Approved'', [])"
  have d1: "fst ?s1 = ''Declined''"
    using assms(2) by (simp add: fst_hard_declines_Credit17)
  show ?thesis
    using assms
    by (simp add: run_decision_Credit17_float_def Let_def locals_simps d1
        snd_hard_declines_Credit17)
qed

lemma run_decision_Credit17_float_within_limit:
  assumes "contract_term a \<noteq> 0"
    and "\<not> fdiv (fdiv (contract_value a) (real_of_int (contract_term a))) 4
           > real_of_int (recommended_limit a)"
  shows "\<exists>v ap rs. run_decision_Credit17_float fdiv limits_df a = Inr (v, ap, rs)
     \<and> ''Declined: 3-month exposure exceeds recommended limit.'' \<notin> set rs"
proof -
  let ?e = "fdiv (fdiv (contract_value a) (real_of_int (contract_term a))) 4"
  let ?s1 = "hard_declines_Credit17 a ?e (''Approved'', [])"
  let ?s2 = "py_if (creditsafe_score a < 30 \<and> smet_compatible a = ''Yes'')
               (reasons_append
                  ''Customer is only eligible with Yu Energy due to SMET compatibility and low score.'')
               ?s1"
  have r1: "''Declined: 3-month exposure exceeds recommended limit.'' \<notin> set (snd ?s1)"
    using assms(2) by (simp add: snd_hard_declines_Credit17)
  have r2: "''Declined: 3-month exposure exceeds recommended limit.'' \<notin> set (snd ?s2)"
    using r1 by (simp add: snd_py_if_append)
  have r3: "''Declined: 3-month exposure exceeds recommended limit.''
              \<notin> set (snd (referral_checks_Credit17 a ?s2))"
    using r2 by (simp add: snd_referral_checks_Credit17)
  show ?thesis
    using assms(1) r2 r3
    by (simp add: run_decision_Credit17_float_def Let_def split_def)
qed

lemma run_decision_credit4_float_unfold:
  assumes "contract_term a \<noteq> 0"
  shows "run_decision_credit4_float fdiv cfg matrix_df a now =
     (let s2 = referral_checks_credit4 cfg a
                 (credit_score_check_credit4 cfg a (''Approved'', []));
          approver = approval_matrix_scan matrix_df (number_of_sites a) (contract_value a)
                       (annual_volume a) ''Managing Director''
      in Inr (fst s2,
              (if fst s2 = ''Approved with Yu Energy Only'' then Some ''Yu Energy Only''
               else if fst s2 = ''Declined'' then None else Some approver),
              snd s2 @ (if fst s2 \<noteq> ''Approved with Yu Energy Only'' \<and> fst s2 \<noteq> ''Declined''
                           \<and> approver = ''Managing Director'' then [md_reason] else []),
              fdiv (fdiv (contract_value a) (real_of_int (contract_term a))) 4,
              fdiv (fdiv (contract_value a) (real_of_int (contract_term a))) 4
                \<le> contract_value a,
              now))"
  using assms
  by (simp add: run_decision_credit4_float_def Let_def fst_reasons_append snd_reasons_append)

lemma credit4_stages_ignore_limit:
  "credit_score_check_credit4 cfg (a\<lparr>recommended_limit := l\<rparr>)
     = credit_score_check_credit4 cfg a"
  "referral_checks_credit4 cfg (a\<lparr>recommended_limit := l\<rparr>)
     = referral_checks_credit4 cfg a"
  by (simp_all add: fun_eq_iff credit_score_check_credit4_def referral_checks_credit4_def)

section \<open>The claims\<close>

subsection \<open>Approver resolution\<close>

text \<open>
  C6. For every sites/contract value/annual volume triple and every ordered tier table,
  the resolver returns the role of the first row, in table order, whose three ceilings
  all hold: when no row of a prefix \<open>pre\<close> matches and the next row \<open>r\<close> does, the result is
  the role of \<open>r\<close>, whatever follows it (so among duplicate or overlapping rows the earlier
  one wins). When no row matches, and in particular when the table is empty, the result
  is the fallback \<open>''Managing Director''\<close>. This holds of \<open>get_required_approver\<close> in
  Credit17.py and of the loop of credit4.py.
\<close>

theorem approver_first_matching_tier:
  "((\<forall>row\<in>set pre. \<not> limits_row_matches sites spend volume row) \<longrightarrow>
      get_required_approver pre sites spend volume = ''Managing Director''
      \<and> (limits_row_matches sites spend volume r \<longrightarrow>
           get_required_approver (pre @ r # post) sites spend volume = Role r))
   \<and> ((\<forall>row\<in>set pre'. \<not> matrix_row_matches sites spend volume row) \<longrightarrow>
      approval_matrix_scan pre' sites spend volume ''Managing Director'' = ''Managing Director''
      \<and> (matrix_row_matches sites spend volume r' \<longrightarrow>
           approval_matrix_scan (pre' @ r' # post') sites spend volume ''Managing Director''
             = Approver r'))
   \<and> get_required_approver [] sites spend volume = ''Managing Director''
   \<and> approval_matrix_scan [] sites spend volume ''Managing Director'' = ''Managing Director''"
  by (simp add: get_required_approver_find approval_matrix_scan_find find_first_match
      find_no_match)

text \<open>
  The example table has a duplicate of its first row. A small application resolves to the
  first row and not to its duplicate, a larger one to the third row after two rows that
  do not match, and one with 30 sites to the fallback.
\<close>

theorem approver_first_matching_tier_witness:
  "\<not> limits_row_matches 8 20000 60000 (example_limits ! 0)
   \<and> \<not> limits_row_matches 8 20000 60000 (example_limits ! 1)
   \<and> limits_row_matches 8 20000 60000 (example_limits ! 2)
   \<and> get_required_approver example_limits 8 20000 60000 = ''Commercial Director''
   \<and> limits_row_matches 1 10000 50000 (example_limits ! 0)
   \<and> limits_row_matches 1 10000 50000 (example_limits ! 1)
   \<and> get_required_approver example_limits 1 10000 50000 = ''Sales Manager''
   \<and> get_required_approver example_limits 30 10000 50000 = ''Managing Director''
   \<and> \<not> matrix_row_matches 8 20000 60000 (example_matrix ! 0)
   \<and> \<not> matrix_row_matches 8 20000 60000 (example_matrix ! 1)
   \<and> matrix_row_matches 8 20000 60000 (example_matrix ! 2)
   \<and> approval_matrix_scan example_matrix 8 20000 60000 ''Managing Director''
       = ''Commercial Director''
   \<and> approval_matrix_scan example_matrix 1 10000 50000 ''Managing Director''
       = ''Sales Manager''
   \<and> approval_matrix_scan example_matrix 30 10000 50000 ''Managing Director''
       = ''Managing Director''"
  using approver_first_matching_tier
          [of "take 2 example_limits" 8 20000 60000 "example_limits ! 2" "[]"
              "take 2 example_matrix" "example_matrix ! 2" "[]"]
        approver_first_matching_tier
          [of "[]" 1 10000 50000 "example_limits ! 0" "drop 1 example_limits"
              "[]" "example_matrix ! 0" "drop 1 example_matrix"]
        approver_first_matching_tier
          [of example_limits 30 10000 50000 "example_limits ! 0" "[]" example_matrix
              "example_matrix ! 0" "[]"]
  by (simp add: example_limits_def example_matrix_def limits_row_matches_def
      matrix_row_matches_def)

text \<open>
  C8. Approver resolution is monotonic. The seniority of the resolved approver is the
  position in the table of the row that resolved it, and the length of the table for
  the fallback role, which is thereby the most senior: the first two conjuncts say that
  the resolvers return the role at exactly that position. Raising the number of sites,
  the contract value or the annual volume (any of them, the others fixed or raised too)
  never lowers that position. When the roles of the table are distinct and none is named
  like the fallback, that position is the seniority of the role name itself, so the
  role returned for the larger application is never less senior.
\<close>

theorem approver_resolution_monotonic:
  "get_required_approver tiers sites spend volume =
     (if approver_rank_Credit17 tiers sites spend volume < length tiers
      then Role (tiers ! approver_rank_Credit17 tiers sites spend volume)
      else ''Managing Director'')
   \<and> approval_matrix_scan matrix sites spend volume ''Managing Director'' =
     (if approver_rank_credit4 matrix sites spend volume < length matrix
      then Approver (matrix ! approver_rank_credit4 matrix sites spend volume)
      else ''Managing Director'')
   \<and> (sites \<le> sites' \<and> spend \<le> spend' \<and> volume \<le> volume' \<longrightarrow>
        approver_rank_Credit17 tiers sites spend volume
          \<le> approver_rank_Credit17 tiers sites' spend' volume'
        \<and> approver_rank_credit4 matrix sites spend volume
          \<le> approver_rank_credit4 matrix sites' spend' volume')
   \<and> (distinct (map Role tiers) \<and> ''Managing Director'' \<notin> Role ` set tiers
        \<and> sites \<le> sites' \<and> spend \<le> spend' \<and> volume \<le> volume' \<longrightarrow>
        role_seniority (map Role tiers) (get_required_approver tiers sites spend volume)
          \<le> role_seniority (map Role tiers)
               (get_required_approver tiers sites' spend' volume'))
   \<and> (distinct (map Approver matrix) \<and> ''Managing Director'' \<notin> Approver ` set matrix
        \<and> sites \<le> sites' \<and> spend \<le> spend' \<and> volume \<le> volume' \<longrightarrow>
        role_seniority (map Approver matrix)
            (approval_matrix_scan matrix sites spend volume ''Managing Director'')
          \<le> role_seniority (map Approver matrix)
               (approval_matrix_scan matrix sites' spend' volume' ''Managing Director''))"
proof -
  have rank17: "approver_rank_Credit17 tiers sites spend volume
          \<le> approver_rank_Credit17 tiers sites' spend' volume'"
    if "sites \<le> sites'" "spend \<le> spend'" "volume \<le> volume'"
    unfolding approver_rank_Credit17_def using that
    by (intro first_match_index_mono) (rule limits_row_matches_antimono)
  have rank4: "approver_rank_credit4 matrix sites spend volume
          \<le> approver_rank_credit4 matrix sites' spend' volume'"
    if "sites \<le> sites'" "spend \<le> spend'" "volume \<le> volume'"
    unfolding approver_rank_credit4_def using that
    by (intro first_match_index_mono) (rule matrix_row_matches_antimono)
  have at17: "get_required_approver tiers sites spend volume =
     (if approver_rank_Credit17 tiers sites spend volume < length tiers
      then Role (tiers ! approver_rank_Credit17 tiers sites spend volume)
      else ''Managing Director'')"
    by (simp add: get_required_approver_find find_first_match_index approver_rank_Credit17_def)
  have at4: "approval_matrix_scan matrix sites spend volume ''Managing Director'' =
     (if approver_rank_credit4 matrix sites spend volume < length matrix
      then Approver (matrix ! approver_rank_credit4 matrix sites spend volume)
      else ''Managing Director'')"
    by (simp add: approval_matrix_scan_find find_first_match_index approver_rank_credit4_def)
  have ranks: "sites \<le> sites' \<and> spend \<le> spend' \<and> volume \<le> volume' \<longrightarrow>
        approver_rank_Credit17 tiers sites spend volume
          \<le> approver_rank_Credit17 tiers sites' spend' volume'
        \<and> approver_rank_credit4 matrix sites spend volume
          \<le> approver_rank_credit4 matrix sites' spend' volume'"
    using rank17 rank4 by blast
  have role17: "distinct (map Role tiers) \<and> ''Managing Director'' \<notin> Role ` set tiers
        \<and> sites \<le> sites' \<and> spend \<le> spend' \<and> volume \<le> volume' \<longrightarrow>
        role_seniority (map Role tiers) (get_required_approver tiers sites spend volume)
          \<le> role_seniority (map Role tiers)
               (get_required_approver tiers sites' spend' volume')"
    using rank17 by (simp add: role_seniority_Credit17)
  have role4: "distinct (map Approver matrix) \<and> ''Managing Director'' \<notin> Approver ` set matrix
        \<and> sites \<le> sites' \<and> spend \<le> spend' \<and> volume \<le> volume' \<longrightarrow>
        role_seniority (map Approver matrix)
            (approval_matrix_scan matrix sites spend volume ''Managing Director'')
          \<le> role_seniority (map Approver matrix)
               (approval_matrix_scan matrix sites' spend' volume' ''Managing Director'')"
    using rank4 by (simp add: role_seniority_credit4)
  show ?thesis
    by (rule conjI [OF at17 conjI [OF at4 conjI [OF ranks conjI [OF role17 role4]]]])
qed

text \<open>
  On the example tables: from (1 site, 10000, 50000) to (8 sites, 20000, 60000) the rank
  rises from 0 to 2, and raising the volume further to 2000000 reaches the fallback.
\<close>

theorem approver_resolution_monotonic_witness:
  "(1::int) \<le> 8 \<and> (10000::real) \<le> 20000 \<and> (50000::real) \<le> 60000
   \<and> distinct (map Role example_limits)
   \<and> ''Managing Director'' \<notin> Role ` set example_limits
   \<and> distinct (map Approver example_matrix)
   \<and> ''Managing Director'' \<notin> Approver ` set example_matrix
   \<and> approver_rank_Credit17 example_limits 1 10000 50000 = 0
   \<and> approver_rank_Credit17 example_limits 8 20000 60000 = 2
   \<and> get_required_approver example_limits 1 10000 50000 = ''Sales Manager''
   \<and> get_required_approver example_limits 8 20000 60000 = ''Commercial Director''
   \<and> role_seniority (map Role example_limits) ''Sales Manager'' = 0
   \<and> role_seniority (map Role example_limits) ''Commercial Director'' = 2
   \<and> role_seniority (map Role example_limits) ''Managing Director'' = 3
   \<and> approver_rank_credit4 example_matrix 1 10000 50000 = 0
   \<and> approver_rank_credit4 example_matrix 8 20000 60000 = 2
   \<and> approver_rank_credit4 example_matrix 8 20000 2000000 = 3
   \<and> approval_matrix_scan example_matrix 8 20000 2000000 ''Managing Director''
       = ''Managing Director''"
  using approver_resolution_monotonic [of example_limits 1 10000 50000 example_matrix 8 20000 60000]
        approver_resolution_monotonic [of example_limits 8 20000 60000 example_matrix 8 20000 2000000]
  by (simp add: example_limits_def example_matrix_def approver_rank_Credit17_def
      approver_rank_credit4_def limits_row_matches_def matrix_row_matches_def
      role_seniority_def)

subsection \<open>Exposure\<close>

text \<open>
  C3, as the claim states it, fails on credit4.py: a contract of 50000 over 2 years has
  an exposure of 6250 (both divisions are exact in doubles), above a recommended limit of
  5000 and above a limit of 0, and the verdict is Approved. credit4.py has no
  recommended limit among its widgets and no check reads one.
\<close>

theorem exposure_over_limit_declines_counterexample:
  "real_of_int (recommended_limit (clean_credit4\<lparr>contract_value := 50000\<rparr>))
     < contract_value (clean_credit4\<lparr>contract_value := 50000\<rparr>)
       / real_of_int (contract_term (clean_credit4\<lparr>contract_value := 50000\<rparr>)) / 4
   \<and> run_decision_credit4_float (/) default_sidebar example_matrix
        (clean_credit4\<lparr>contract_value := 50000\<rparr>) ''2025-07-01 09:00:00''
     = Inr (''Approved'', Some ''Sales Manager'', [], 6250, True, ''2025-07-01 09:00:00'')
   \<and> run_decision_credit4_float (/) default_sidebar example_matrix
        (clean_credit4\<lparr>contract_value := 50000, recommended_limit := 0\<rparr>)
        ''2025-07-01 09:00:00''
     = Inr (''Approved'', Some ''Sales Manager'', [], 6250, True, ''2025-07-01 09:00:00'')"
  by (simp add: run_decision_credit4_float_def run_decision_defs example_defs)

text \<open>
  C3, amended. In Credit17.py the three-month exposure is the value that the script
  computes for \<open>contract_value / contract_term / 4\<close>, and whenever that value exceeds the
  recommended credit limit the verdict is Declined, with no approver and with the
  exposure reason recorded, whatever the other fields hold; the exposure reason is
  recorded exactly when that value exceeds the limit. credit4.py returns the value of
  the same expression as its exposure estimate, and its verdict, approver and reasons
  depend neither on that value nor on any recommended limit. The division is the
  parameter \<open>fdiv\<close>, so this holds however the quotient is rounded; a contract term of zero
  raises instead.
\<close>

theorem exposure_over_limit_declines:
  "(contract_term a \<noteq> 0
      \<and> fdiv (fdiv (contract_value a) (real_of_int (contract_term a))) 4
          > real_of_int (recommended_limit a)
      \<longrightarrow> (\<exists>rs. run_decision_Credit17_float fdiv limits_df a = Inr (''Declined'', None, rs)
             \<and> ''Declined: 3-month exposure exceeds recommended limit.'' \<in> set rs))
   \<and> (contract_term a \<noteq> 0 \<longrightarrow>
        (\<exists>v ap rs. run_decision_Credit17_float fdiv limits_df a = Inr (v, ap, rs)
           \<and> (''Declined: 3-month exposure exceeds recommended limit.'' \<in> set rs
                \<longleftrightarrow> fdiv (fdiv (contract_value a) (real_of_int (contract_term a))) 4
                      > real_of_int (recommended_limit a))))
   \<and> (contract_term a \<noteq> 0 \<longrightarrow>
        (\<exists>v ap rs p t. run_decision_credit4_float fdiv cfg matrix_df a now =
           Inr (v, ap, rs, fdiv (fdiv (contract_value a) (real_of_int (contract_term a))) 4,
                p, t))
        \<and> verdict_approver_reasons
            (run_decision_credit4_float fdiv' cfg matrix_df (a\<lparr>recommended_limit := l\<rparr>) now)
          = verdict_approver_reasons (run_decision_credit4_float fdiv cfg matrix_df a now))"
proof -
  let ?e = "fdiv (fdiv (contract_value a) (real_of_int (contract_term a))) 4"
  have declines: "\<exists>rs. run_decision_Credit17_float fdiv limits_df a = Inr (''Declined'', None, rs)
             \<and> ''Declined: 3-month exposure exceeds recommended limit.'' \<in> set rs"
    if "contract_term a \<noteq> 0 \<and> ?e > real_of_int (recommended_limit a)"
    using that run_decision_Credit17_float_over_limit [of a fdiv limits_df] by simp
  have exactly: "\<exists>v ap rs. run_decision_Credit17_float fdiv limits_df a = Inr (v, ap, rs)
           \<and> (''Declined: 3-month exposure exceeds recommended limit.'' \<in> set rs
                \<longleftrightarrow> ?e > real_of_int (recommended_limit a))"
    if t: "contract_term a \<noteq> 0"
  proof (cases "?e > real_of_int (recommended_limit a)")
    case True
    with t run_decision_Credit17_float_over_limit [of a fdiv limits_df]
    show ?thesis by simp
  next
    case False
    with t run_decision_Credit17_float_within_limit [of a fdiv limits_df]
    show ?thesis by blast
  qed
  have credit4: "(\<exists>v ap rs p t. run_decision_credit4_float fdiv cfg matrix_df a now =
           Inr (v, ap, rs, ?e, p, t))
        \<and> verdict_approver_reasons
            (run_decision_credit4_float fdiv' cfg matrix_df (a\<lparr>recommended_limit := l\<rparr>) now)
          = verdict_approver_reasons (run_decision_credit4_float fdiv cfg matrix_df a now)"
    if t: "contract_term a \<noteq> 0"
  proof -
    from t have t': "contract_term (a\<lparr>recommended_limit := l\<rparr>) \<noteq> 0" by simp
    have "\<exists>v ap rs p t. run_decision_credit4_float fdiv cfg matrix_df a now =
           Inr (v, ap, rs, ?e, p, t)"
      by (simp add: run_decision_credit4_float_unfold [of a fdiv, OF t] Let_def)
    moreover have "verdict_approver_reasons
            (run_decision_credit4_float fdiv' cfg matrix_df (a\<lparr>recommended_limit := l\<rparr>) now)
          = verdict_approver_reasons (run_decision_credit4_float fdiv cfg matrix_df a now)"
      unfolding run_decision_credit4_float_unfold [of a fdiv, OF t]
        run_decision_credit4_float_unfold [of "a\<lparr>recommended_limit := l\<rparr>" fdiv', OF t']
        credit4_stages_ignore_limit
      by (simp add: verdict_approver_reasons_def Let_def)
    ultimately show ?thesis by (rule conjI)
  qed
  show ?thesis
    by (rule conjI [OF impI [OF declines] conjI [OF impI [OF exactly] impI [OF credit4]]])
qed

text \<open>
  A contract of 50000 over 2 years against a limit of 5000 is declined by Credit17.py,
  one of 10000 is approved, and credit4.py approves the first whatever the limit.
\<close>

theorem exposure_over_limit_declines_witness:
  "contract_term (clean_Credit17\<lparr>contract_value := 50000\<rparr>) \<noteq> 0
   \<and> contract_value (clean_Credit17\<lparr>contract_value := 50000\<rparr>)
       / real_of_int (contract_term (clean_Credit17\<lparr>contract_value := 50000\<rparr>)) / 4
     > real_of_int (recommended_limit (clean_Credit17\<lparr>contract_value := 50000\<rparr>))
   \<and> run_decision_Credit17_float (/) example_limits
        (clean_Credit17\<lparr>contract_value := 50000\<rparr>)
     = Inr (''Declined'', None, [''Declined: 3-month exposure exceeds recommended limit.''])
   \<and> run_decision_Credit17_float (/) example_limits clean_Credit17
     = Inr (''Approved'', Some ''Sales Manager'', [])
   \<and> verdict_approver_reasons
        (run_decision_credit4_float (/) default_sidebar example_matrix
           (clean_credit4\<lparr>contract_value := 50000, recommended_limit := 0\<rparr>)
           ''2025-07-01 09:00:00'')
     = Inr (''Approved'', Some ''Sales Manager'', [])"
  using exposure_over_limit_declines
          [of "clean_Credit17\<lparr>contract_value := 50000\<rparr>" "(/)" example_limits
              default_sidebar example_matrix "''2025-07-01 09:00:00''" "(/)" 0]
        exposure_over_limit_declines
          [of clean_Credit17 "(/)" example_limits
              default_sidebar example_matrix "''2025-07-01 09:00:00''" "(/)" 0]
        exposure_over_limit_declines
          [of "clean_credit4\<lparr>contract_value := 50000\<rparr>" "(/)" example_limits
              default_sidebar example_matrix "''2025-07-01 09:00:00''" "(/)" 0]
  by (simp add: run_decision_Credit17_float_def run_decision_credit4_float_def
      run_decision_defs example_defs verdict_approver_reasons_def)

text \<open>
  C10. In credit4.py, for every input with a contract value of at least 0 and a contract
  term of at least 1, the returned \<open>exposure_passed\<close> is true: the estimate is compared with
  the contract value itself. The verdict, the approver and the reasons are the same
  for every other non-zero contract term, and no credit limit is read, so the exposure
  computation does not influence them.
\<close>

theorem credit4_exposure_always_passes:
  "(0 \<le> contract_value a \<and> 1 \<le> contract_term a \<longrightarrow>
      (\<exists>v ap rs t. run_decision_credit4 cfg matrix_df a now =
         Inr (v, ap, rs, contract_value a / real_of_int (contract_term a) / 4, True, t)))
   \<and> (contract_term a \<noteq> 0 \<and> ct \<noteq> 0 \<longrightarrow>
      verdict_approver_reasons
        (run_decision_credit4 cfg matrix_df (a\<lparr>contract_term := ct, recommended_limit := l\<rparr>) now)
      = verdict_approver_reasons (run_decision_credit4 cfg matrix_df a now))"
proof (intro conjI impI)
  assume h: "0 \<le> contract_value a \<and> 1 \<le> contract_term a"
  then have t: "contract_term a \<noteq> 0" by simp
  from h have "contract_value a / real_of_int (contract_term a) / 4 \<le> contract_value a"
    by (intro quarter_share_le) simp_all
  then show "\<exists>v ap rs t. run_decision_credit4 cfg matrix_df a now =
         Inr (v, ap, rs, contract_value a / real_of_int (contract_term a) / 4, True, t)"
    by (simp add: run_decision_credit4_unfold [OF t] Let_def del: divide_divide_eq_left)
next
  assume h: "contract_term a \<noteq> 0 \<and> ct \<noteq> 0"
  then have t: "contract_term a \<noteq> 0"
    and t': "contract_term (a\<lparr>contract_term := ct, recommended_limit := l\<rparr>) \<noteq> 0"
    by simp_all
  show "verdict_approver_reasons
        (run_decision_credit4 cfg matrix_df (a\<lparr>contract_term := ct, recommended_limit := l\<rparr>) now)
      = verdict_approver_reasons (run_decision_credit4 cfg matrix_df a now)"
    unfolding run_decision_credit4_unfold [OF t] run_decision_credit4_unfold [OF t']
      credit4_stages_ignore_exposure_inputs
    by (simp add: verdict_approver_reasons_def Let_def)
qed

text \<open>
  On the clean form state the flag is true, and a term of 10 years instead of 2 leaves
  verdict, approver and reasons as they were.
\<close>

theorem credit4_exposure_always_passes_witness:
  "(0::real) \<le> contract_value clean_credit4 \<and> 1 \<le> contract_term clean_credit4
   \<and> run_decision_credit4 default_sidebar example_matrix clean_credit4
        ''2025-07-01 09:00:00''
      = Inr (''Approved'', Some ''Sales Manager'', [], 1250, True, ''2025-07-01 09:00:00'')
   \<and> verdict_approver_reasons
        (run_decision_credit4 default_sidebar example_matrix
           (clean_credit4\<lparr>contract_term := 10, recommended_limit := 0\<rparr>)
           ''2025-07-01 09:00:00'')
      = Inr (''Approved'', Some ''Sales Manager'', [])"
  using credit4_exposure_always_passes
          [of clean_credit4 default_sidebar example_matrix "''2025-07-01 09:00:00''" 10 0]
  by (simp add: run_decision_defs example_defs verdict_approver_reasons_def)

subsection \<open>Determinism\<close>

text \<open>
  C9. The evaluation is deterministic and idempotent. Each \<open>run_decision\<close> is a function
  of the widgets of its own script and of its reference table: two form states that
  agree on those widgets give the same verdict, approver and reasons in the same order,
  and for credit4.py also the same exposure estimate and flag, whatever the clock reads
  at the two calls. Only the timestamp depends on the clock.
\<close>

theorem run_decision_deterministic:
  "(same_Credit17_inputs a b \<longrightarrow>
      run_decision_Credit17 limits_df a = run_decision_Credit17 limits_df b)
   \<and> (same_credit4_inputs a b \<longrightarrow>
      without_timestamp (run_decision_credit4 cfg matrix_df a now)
        = without_timestamp (run_decision_credit4 cfg matrix_df b now'))"
proof (intro conjI impI)
  assume same: "same_Credit17_inputs a b"
  show "run_decision_Credit17 limits_df a = run_decision_Credit17 limits_df b"
    unfolding run_decision_Credit17_def same_Credit17_inputs_stages [OF same]
    using same by (simp add: same_Credit17_inputs_def cong del: if_weak_cong)
next
  assume same: "same_credit4_inputs a b"
  have "run_decision_credit4 cfg matrix_df a now = run_decision_credit4 cfg matrix_df b now"
    unfolding run_decision_credit4_def same_credit4_inputs_stages [OF same]
    using same by (simp add: same_credit4_inputs_def cong del: if_weak_cong)
  then show "without_timestamp (run_decision_credit4 cfg matrix_df a now)
        = without_timestamp (run_decision_credit4 cfg matrix_df b now')"
    by (simp add: without_timestamp_run_decision_credit4 [of cfg matrix_df b now now'])
qed

text \<open>
  Two calls at different times, on form states that differ only in widgets of the other
  script.
\<close>

theorem run_decision_deterministic_witness:
  "same_Credit17_inputs clean_Credit17
     (clean_Credit17\<lparr>credit_score := 10, business_type := ''Sole Trader''\<rparr>)
   \<and> run_decision_Credit17 example_limits
        (clean_Credit17\<lparr>credit_score := 10, business_type := ''Sole Trader''\<rparr>)
      = Inr (''Approved'', Some ''Sales Manager'', [])
   \<and> same_credit4_inputs clean_credit4
        (clean_credit4\<lparr>creditsafe_score := 0, has_ccjs := ''Yes''\<rparr>)
   \<and> without_timestamp
        (run_decision_credit4 default_sidebar example_matrix
           (clean_credit4\<lparr>creditsafe_score := 0, has_ccjs := ''Yes''\<rparr>)
           ''2025-07-02 17:30:00'')
      = without_timestamp
          (run_decision_credit4 default_sidebar example_matrix clean_credit4
             ''2025-07-01 09:00:00'')
   \<and> run_decision_credit4 default_sidebar example_matrix clean_credit4
        ''2025-07-01 09:00:00''
      = Inr (''Approved'', Some ''Sales Manager'', [], 1250, True, ''2025-07-01 09:00:00'')"
  using run_decision_deterministic
          [of clean_Credit17
              "clean_Credit17\<lparr>credit_score := 10, business_type := ''Sole Trader''\<rparr>"
              example_limits]
        run_decision_deterministic
          [of clean_credit4 "clean_credit4\<lparr>creditsafe_score := 0, has_ccjs := ''Yes''\<rparr>"
              _ default_sidebar example_matrix "''2025-07-01 09:00:00''"
              "''2025-07-02 17:30:00''"]
  by (simp add: run_decision_defs example_defs same_Credit17_inputs_def
      same_credit4_inputs_def)

subsection \<open>Hard declines\<close>

text \<open>
  C2. Hard decline checks run first, are not mutually exclusive, and any of them makes
  the verdict Declined. Credit17.py does this (\<open>run_decision_Credit17_hard_declines\<close>
  above). credit4.py does not: its block headed \<^verbatim>\<open># Hard declines\<close> declines a score of 20
  with an incompatible meter, but the later checks assign \<^verbatim>\<open>"Refer"\<close> without looking at
  the verdict. With a High sector risk added, the same application is referred and given
  an approver, while Credit17.py keeps it declined.
\<close>

theorem hard_decline_overridden_credit4:
  "credit_score (clean_credit4\<lparr>credit_score := 20, smet_compatible := ''No''\<rparr>) < 30
   \<and> smet_compatible (clean_credit4\<lparr>credit_score := 20, smet_compatible := ''No''\<rparr>) = ''No''
   \<and> run_decision_credit4 default_sidebar example_matrix
        (clean_credit4\<lparr>credit_score := 20, smet_compatible := ''No''\<rparr>)
        ''2025-07-01 09:00:00''
     = Inr (''Declined'', None, [''Credit Score below minimum threshold''], 1250, True,
            ''2025-07-01 09:00:00'')
   \<and> run_decision_credit4 default_sidebar example_matrix
        (clean_credit4\<lparr>credit_score := 20, smet_compatible := ''No'', sic_risk := ''High''\<rparr>)
        ''2025-07-01 09:00:00''
     = Inr (''Refer'', Some ''Sales Manager'',
            [''Credit Score below minimum threshold'', ''SIC Risk too high''], 1250, True,
            ''2025-07-01 09:00:00'')
   \<and> run_decision_Credit17 example_limits
        (clean_Credit17\<lparr>creditsafe_score := 20, smet_compatible := ''No'',
                          sic_risk := ''High''\<rparr>)
     = Inr (''Declined'', None,
            [''Declined: Credit score below 30 and meter not SMET-compatible.''])"
  by (simp add: run_decision_defs example_defs)

subsection \<open>Referrals\<close>

text \<open>
  C1, as the claim states it, fails on Credit17.py: a High sector risk on an otherwise
  clean application appends the referral reason, and so do three conditions together,
  but the verdict stays Approved. Credit17.py never assigns Refer.
\<close>

theorem referral_checks_accumulate_counterexample:
  "run_decision_Credit17 example_limits (clean_Credit17\<lparr>sic_risk := ''High''\<rparr>)
     = Inr (''Approved'', Some ''Sales Manager'', [''Referral: High sector risk.''])
   \<and> run_decision_Credit17 example_limits
        (clean_Credit17\<lparr>sic_risk := ''Very High'', uplift_unit := 2, years_trading := 0\<rparr>)
     = Inr (''Approved'', Some ''Sales Manager'',
            [''Referral: High sector risk.'', ''Referral: Unit rate uplift too high.'',
             ''Referral: Insufficient trading history.''])"
  by (simp add: run_decision_defs example_defs)

text \<open>
  C1, amended. In Credit17.py, for every application whose verdict is not Declined, the
  verdict is Approved and the reasons are, in this order, the exception note (score
  below 30 with a compatible meter) and the reason of each referral condition that
  holds: score below 60 (scores below 30 included), High or Very High sector risk,
  payment terms other than 7 Days Direct Debit, unit margin below 0.5, standing uplift
  above 5.0, unit uplift above 1.0, less than 1 year trading. In credit4.py, for every
  application that the score block does not decline, the verdict is Refer exactly when
  a referral condition holds (score from the referral threshold up to the approval
  threshold, less than 1 year trading, or less than 2 for a limited company, payment
  terms other than 14 Days DD and 14 Days BACS, High or Very High sector risk, unit
  margin below the minimum), and then the reasons are the reason of each condition that
  holds, in order, after the note of the score block and before the Managing Director
  notice; a verdict of Refer is kept by all the referral checks.
\<close>

theorem referral_checks_accumulate:
  "(run_decision_Credit17 limits_df a = Inr (v, ap, rs) \<and> v \<noteq> ''Declined'' \<longrightarrow>
      v = ''Approved''
      \<and> rs =
        (if creditsafe_score a < 30 \<and> smet_compatible a = ''Yes''
         then [''Customer is only eligible with Yu Energy due to SMET compatibility and low score.'']
         else [])
        @ (if creditsafe_score a < 60 then [''Referral: Low credit score.''] else [])
        @ (if sic_risk a = ''High'' \<or> sic_risk a = ''Very High''
           then [''Referral: High sector risk.''] else [])
        @ (if payment_terms a \<noteq> ''7 Days Direct Debit''
           then [''Referral: Non-standard payment terms.''] else [])
        @ (if unit_margin a < 0.5 then [''Referral: Unit margin below minimum.''] else [])
        @ (if uplift_standing a > 5.0 then [''Referral: Standing uplift too high.''] else [])
        @ (if uplift_unit a > 1.0 then [''Referral: Unit rate uplift too high.''] else [])
        @ (if years_trading a < 1 then [''Referral: Insufficient trading history.''] else []))
   \<and> (contract_term a \<noteq> 0
      \<and> (credit_score a < refer_threshold cfg \<longrightarrow>
           credit_score a < 30 \<and> smet_compatible a = ''Yes'')
    \<longrightarrow> verdict_and_reasons (run_decision_credit4 cfg matrix_df a now) =
          (if (refer_threshold cfg \<le> credit_score a \<and> credit_score a < approve_threshold cfg)
              \<or> (business_type a \<noteq> ''Limited Company'' \<and> years_trading a < 1)
              \<or> (business_type a = ''Limited Company'' \<and> years_trading a < 2)
              \<or> (payment_terms a \<noteq> ''14 Days DD'' \<and> payment_terms a \<noteq> ''14 Days BACS'')
              \<or> (sic_risk a = ''High'' \<or> sic_risk a = ''Very High'')
              \<or> unit_margin a < min_unit_margin cfg
           then
             Inr (''Refer'',
                (if credit_score a < refer_threshold cfg
                 then [''Credit Score <30: Only Yu Energy permitted due to SMET compatibility'']
                 else if credit_score a < approve_threshold cfg
                 then [''Credit Score requires referral''] else [])
                @ (if business_type a \<noteq> ''Limited Company'' \<and> years_trading a < 1
                   then [''Insufficient trading history for Sole Trader/Partnership'']
                   else if business_type a = ''Limited Company'' \<and> years_trading a < 2
                   then [''Insufficient trading history for Limited Company''] else [])
                @ (if payment_terms a \<noteq> ''14 Days DD'' \<and> payment_terms a \<noteq> ''14 Days BACS''
                   then [''Payment terms exceed acceptable''] else [])
                @ (if sic_risk a = ''High'' \<or> sic_risk a = ''Very High''
                   then [''SIC Risk too high''] else [])
                @ (if unit_margin a < min_unit_margin cfg
                   then [''Margin below minimum allowed''] else [])
                @ (if approval_matrix_scan matrix_df (number_of_sites a) (contract_value a)
                        (annual_volume a) ''Managing Director'' = ''Managing Director''
                   then [md_reason] else []))
           else if credit_score a < refer_threshold cfg
           then Inr (''Approved with Yu Energy Only'',
                  [''Credit Score <30: Only Yu Energy permitted due to SMET compatibility''])
           else Inr (''Approved'',
                  (if approval_matrix_scan matrix_df (number_of_sites a) (contract_value a)
                        (annual_volume a) ''Managing Director'' = ''Managing Director''
                   then [md_reason] else []))))
   \<and> fst (referral_checks_credit4 cfg a (''Refer'', rs0)) = ''Refer''"
proof -
  have credit17: "v = ''Approved''
      \<and> rs =
        (if creditsafe_score a < 30 \<and> smet_compatible a = ''Yes''
         then [''Customer is only eligible with Yu Energy due to SMET compatibility and low score.'']
         else [])
        @ (if creditsafe_score a < 60 then [''Referral: Low credit score.''] else [])
        @ (if sic_risk a = ''High'' \<or> sic_risk a = ''Very High''
           then [''Referral: High sector risk.''] else [])
        @ (if payment_terms a \<noteq> ''7 Days Direct Debit''
           then [''Referral: Non-standard payment terms.''] else [])
        @ (if unit_margin a < 0.5 then [''Referral: Unit margin below minimum.''] else [])
        @ (if uplift_standing a > 5.0 then [''Referral: Standing uplift too high.''] else [])
        @ (if uplift_unit a > 1.0 then [''Referral: Unit rate uplift too high.''] else [])
        @ (if years_trading a < 1 then [''Referral: Insufficient trading history.''] else [])"
    if h: "run_decision_Credit17 limits_df a = Inr (v, ap, rs) \<and> v \<noteq> ''Declined''"
  proof -
    have t: "contract_term a \<noteq> 0"
      using h by (auto simp add: run_decision_Credit17_zero_term)
    have nd: "\<not> ((creditsafe_score a < 30 \<and> smet_compatible a = ''No'') \<or> has_ccjs a = ''Yes''
       \<or> contract_value a / real_of_int (contract_term a) / 4 > real_of_int (recommended_limit a))"
    proof
      assume d: "(creditsafe_score a < 30 \<and> smet_compatible a = ''No'') \<or> has_ccjs a = ''Yes''
       \<or> contract_value a / real_of_int (contract_term a) / 4 > real_of_int (recommended_limit a)"
      show False
        using h unfolding run_decision_Credit17_declined [OF t d] by blast
    qed
    from nd have n1: "\<not> (creditsafe_score a < 30 \<and> smet_compatible a = ''No'')"
      and n2: "has_ccjs a \<noteq> ''Yes''"
      and n3: "\<not> contract_value a / real_of_int (contract_term a) / 4
                 > real_of_int (recommended_limit a)"
      by blast+
    show ?thesis
      using h unfolding run_decision_Credit17_not_declined [OF t n1 n2 n3] by blast
  qed
  have credit4: "verdict_and_reasons (run_decision_credit4 cfg matrix_df a now) =
          (if (refer_threshold cfg \<le> credit_score a \<and> credit_score a < approve_threshold cfg)
              \<or> (business_type a \<noteq> ''Limited Company'' \<and> years_trading a < 1)
              \<or> (business_type a = ''Limited Company'' \<and> years_trading a < 2)
              \<or> (payment_terms a \<noteq> ''14 Days DD'' \<and> payment_terms a \<noteq> ''14 Days BACS'')
              \<or> (sic_risk a = ''High'' \<or> sic_risk a = ''Very High'')
              \<or> unit_margin a < min_unit_margin cfg
           then
             Inr (''Refer'',
                (if credit_score a < refer_threshold cfg
                 then [''Credit Score <30: Only Yu Energy permitted due to SMET compatibility'']
                 else if credit_score a < approve_threshold cfg
                 then [''Credit Score requires referral''] else [])
                @ (if business_type a \<noteq> ''Limited Company'' \<and> years_trading a < 1
                   then [''Insufficient trading history for Sole Trader/Partnership'']
                   else if business_type a = ''Limited Company'' \<and> years_trading a < 2
                   then [''Insufficient trading history for Limited Company''] else [])
                @ (if payment_terms a \<noteq> ''14 Days DD'' \<and> payment_terms a \<noteq> ''14 Days BACS''
                   then [''Payment terms exceed acceptable''] else [])
                @ (if sic_risk a = ''High'' \<or> sic_risk a = ''Very High''
                   then [''SIC Risk too high''] else [])
                @ (if unit_margin a < min_unit_margin cfg
                   then [''Margin below minimum allowed''] else [])
                @ (if approval_matrix_scan matrix_df (number_of_sites a) (contract_value a)
                        (annual_volume a) ''Managing Director'' = ''Managing Director''
                   then [md_reason] else []))
           else if credit_score a < refer_threshold cfg
           then Inr (''Approved with Yu Energy Only'',
                  [''Credit Score <30: Only Yu Energy permitted due to SMET compatibility''])
           else Inr (''Approved'',
                  (if approval_matrix_scan matrix_df (number_of_sites a) (contract_value a)
                        (annual_volume a) ''Managing Director'' = ''Managing Director''
                   then [md_reason] else [])))"
    if h: "contract_term a \<noteq> 0
      \<and> (credit_score a < refer_threshold cfg \<longrightarrow>
           credit_score a < 30 \<and> smet_compatible a = ''Yes'')"
  proof -
    from h have t: "contract_term a \<noteq> 0" by simp
    let ?c = "(business_type a \<noteq> ''Limited Company'' \<and> years_trading a < 1)
              \<or> (business_type a = ''Limited Company'' \<and> years_trading a < 2)
              \<or> (payment_terms a \<noteq> ''14 Days DD'' \<and> payment_terms a \<noteq> ''14 Days BACS'')
              \<or> (sic_risk a = ''High'' \<or> sic_risk a = ''Very High'')
              \<or> unit_margin a < min_unit_margin cfg"
    let ?band = "refer_threshold cfg \<le> credit_score a \<and> credit_score a < approve_threshold cfg"
    let ?s1 = "credit_score_check_credit4 cfg a (''Approved'', [])"
    let ?s2 = "referral_checks_credit4 cfg a ?s1"
    from h have v1: "fst ?s1 =
        (if credit_score a < refer_threshold cfg then ''Approved with Yu Energy Only''
         else if credit_score a < approve_threshold cfg then ''Refer'' else ''Approved'')"
      and r1: "snd ?s1 =
        (if credit_score a < refer_threshold cfg
         then [''Credit Score <30: Only Yu Energy permitted due to SMET compatibility'']
         else if credit_score a < approve_threshold cfg
         then [''Credit Score requires referral''] else [])"
      by (simp_all add: fst_credit_score_check_credit4 snd_credit_score_check_credit4)
    have v2: "fst ?s2 = (if ?c then ''Refer'' else fst ?s1)"
      by (simp only: fst_referral_checks_credit4)
    note r2 = snd_referral_checks_credit4 [of cfg a ?s1]
    show ?thesis
    proof (cases "?band \<or> ?c")
      case True
      then have v: "fst ?s2 = ''Refer''"
        unfolding v2 v1 by auto
      from True show ?thesis
        unfolding run_decision_credit4_unfold [OF t] Let_def v r2 r1 verdict_and_reasons_def
        by simp
    next
      case False
      then have v: "fst ?s2 =
          (if credit_score a < refer_threshold cfg then ''Approved with Yu Energy Only''
           else ''Approved'')"
        unfolding v2 v1 by auto
      from False have r: "snd ?s2 =
          (if credit_score a < refer_threshold cfg
           then [''Credit Score <30: Only Yu Energy permitted due to SMET compatibility'']
           else [])"
        unfolding r2 r1 by auto
      from False show ?thesis
        unfolding run_decision_credit4_unfold [OF t] Let_def v r verdict_and_reasons_def
        by simp
    qed
  qed
  have stays: "fst (referral_checks_credit4 cfg a (''Refer'', rs0)) = ''Refer''"
    by (simp add: fst_referral_checks_credit4)
  show ?thesis
    by (rule conjI [OF impI [OF credit17] conjI [OF impI [OF credit4] stays]])
qed

text \<open>
  Three referral reasons under one Approved verdict in Credit17.py, and three under one
  Refer verdict in credit4.py.
\<close>

theorem referral_checks_accumulate_witness:
  "run_decision_Credit17 example_limits
        (clean_Credit17\<lparr>sic_risk := ''Very High'', uplift_unit := 2, years_trading := 0\<rparr>)
     = Inr (''Approved'', Some ''Sales Manager'',
            [''Referral: High sector risk.'', ''Referral: Unit rate uplift too high.'',
             ''Referral: Insufficient trading history.''])
   \<and> contract_term (clean_credit4\<lparr>credit_score := 70, sic_risk := ''High'',
                                   unit_margin := 0.1\<rparr>) \<noteq> 0
   \<and> \<not> credit_score (clean_credit4\<lparr>credit_score := 70, sic_risk := ''High'',
                                    unit_margin := 0.1\<rparr>)
         < refer_threshold default_sidebar
   \<and> verdict_and_reasons
        (run_decision_credit4 default_sidebar example_matrix
           (clean_credit4\<lparr>credit_score := 70, sic_risk := ''High'', unit_margin := 0.1\<rparr>)
           ''2025-07-01 09:00:00'')
     = Inr (''Refer'',
            [''Credit Score requires referral'', ''SIC Risk too high'',
             ''Margin below minimum allowed''])
   \<and> verdict_and_reasons
        (run_decision_credit4 default_sidebar example_matrix clean_credit4
           ''2025-07-01 09:00:00'')
     = Inr (''Approved'', [])"
  using referral_checks_accumulate
          [of example_limits
              "clean_Credit17\<lparr>sic_risk := ''Very High'', uplift_unit := 2, years_trading := 0\<rparr>"
              "''Approved''" "Some ''Sales Manager''"
              "[''Referral: High sector risk.'', ''Referral: Unit rate uplift too high.'',
                ''Referral: Insufficient trading history.'']"
              default_sidebar example_matrix "''2025-07-01 09:00:00''" "[]"]
        referral_checks_accumulate
          [of example_limits
              "clean_credit4\<lparr>credit_score := 70, sic_risk := ''High'', unit_margin := 0.1\<rparr>"
              "''Approved''" None "[]"
              default_sidebar example_matrix "''2025-07-01 09:00:00''" "[]"]
        referral_checks_accumulate
          [of example_limits clean_credit4 "''Approved''" None "[]"
              default_sidebar example_matrix "''2025-07-01 09:00:00''" "[]"]
  by (simp add: run_decision_defs example_defs verdict_and_reasons_def)

subsection \<open>The exception path for low scores\<close>

text \<open>
  C4, as the claim states it, fails on credit4.py: with a score of 20, a compatible
  meter and a High sector risk, the verdict is Refer, neither the restricted approval
  nor Approved.
\<close>

theorem low_score_compatible_meter_counterexample:
  "credit_score (clean_credit4\<lparr>credit_score := 20, sic_risk := ''High''\<rparr>) < 30
   \<and> smet_compatible (clean_credit4\<lparr>credit_score := 20, sic_risk := ''High''\<rparr>) = ''Yes''
   \<and> run_decision_credit4 default_sidebar example_matrix
        (clean_credit4\<lparr>credit_score := 20, sic_risk := ''High''\<rparr>) ''2025-07-01 09:00:00''
     = Inr (''Refer'', Some ''Sales Manager'',
            [''Credit Score <30: Only Yu Energy permitted due to SMET compatibility'',
             ''SIC Risk too high''],
            1250, True, ''2025-07-01 09:00:00'')"
  by (simp add: run_decision_defs example_defs)

text \<open>
  C4, amended. For every application with a score below 30, a compatible meter and no
  other decline condition true (in Credit17.py: no CCJs or defaults, and an exposure
  within the recommended limit; credit4.py has no other decline condition), the verdict
  is never Declined. In Credit17.py the verdict is Approved and the exception reason
  comes first in the reasons. In credit4.py, when the score is also below the configured
  referral threshold (60 by default), the exception reason comes first in the reasons
  and the verdict is the restricted approval when no referral check fires, and Refer
  when one does.
\<close>

theorem low_score_compatible_meter:
  "(contract_term a \<noteq> 0 \<and> creditsafe_score a < 30 \<and> smet_compatible a = ''Yes''
      \<and> has_ccjs a \<noteq> ''Yes''
      \<and> \<not> contract_value a / real_of_int (contract_term a) / 4
            > real_of_int (recommended_limit a)
    \<longrightarrow> (\<exists>rs. run_decision_Credit17 limits_df a =
            Inr (''Approved'',
                 Some (get_required_approver limits_df (number_of_sites a) (contract_value a)
                         (annual_volume a)),
                 ''Customer is only eligible with Yu Energy due to SMET compatibility and low score.''
                 # rs)))
   \<and> (contract_term a \<noteq> 0 \<and> credit_score a < 30 \<and> credit_score a < refer_threshold cfg
      \<and> smet_compatible a = ''Yes''
    \<longrightarrow> (\<exists>ap rs e p t. run_decision_credit4 cfg matrix_df a now =
            Inr ((if (business_type a \<noteq> ''Limited Company'' \<and> years_trading a < 1)
                     \<or> (business_type a = ''Limited Company'' \<and> years_trading a < 2)
                     \<or> (payment_terms a \<noteq> ''14 Days DD'' \<and> payment_terms a \<noteq> ''14 Days BACS'')
                     \<or> (sic_risk a = ''High'' \<or> sic_risk a = ''Very High'')
                     \<or> unit_margin a < min_unit_margin cfg
                  then ''Refer'' else ''Approved with Yu Energy Only''),
                 Some ap,
                 ''Credit Score <30: Only Yu Energy permitted due to SMET compatibility'' # rs,
                 e, p, t)))
   \<and> (contract_term a \<noteq> 0 \<and> credit_score a < 30 \<and> smet_compatible a = ''Yes''
    \<longrightarrow> (\<exists>v ap rs e p t. run_decision_credit4 cfg matrix_df a now =
            Inr (v, ap, rs, e, p, t) \<and> v \<noteq> ''Declined''))"
proof (intro conjI impI)
  assume h: "contract_term a \<noteq> 0 \<and> creditsafe_score a < 30 \<and> smet_compatible a = ''Yes''
      \<and> has_ccjs a \<noteq> ''Yes''
      \<and> \<not> contract_value a / real_of_int (contract_term a) / 4
            > real_of_int (recommended_limit a)"
  then have "run_decision_Credit17 limits_df a =
     Inr (''Approved'',
       Some (get_required_approver limits_df (number_of_sites a) (contract_value a)
               (annual_volume a)),
       (if creditsafe_score a < 30 \<and> smet_compatible a = ''Yes''
        then [''Customer is only eligible with Yu Energy due to SMET compatibility and low score.'']
        else [])
       @ (if creditsafe_score a < 60 then [''Referral: Low credit score.''] else [])
       @ (if sic_risk a = ''High'' \<or> sic_risk a = ''Very High''
          then [''Referral: High sector risk.''] else [])
       @ (if payment_terms a \<noteq> ''7 Days Direct Debit''
          then [''Referral: Non-standard payment terms.''] else [])
       @ (if unit_margin a < 0.5 then [''Referral: Unit margin below minimum.''] else [])
       @ (if uplift_standing a > 5.0 then [''Referral: Standing uplift too high.''] else [])
       @ (if uplift_unit a > 1.0 then [''Referral: Unit rate uplift too high.''] else [])
       @ (if years_trading a < 1 then [''Referral: Insufficient trading history.''] else []))"
    by (intro run_decision_Credit17_not_declined) simp_all
  with h show "\<exists>rs. run_decision_Credit17 limits_df a =
            Inr (''Approved'',
                 Some (get_required_approver limits_df (number_of_sites a) (contract_value a)
                         (annual_volume a)),
                 ''Customer is only eligible with Yu Energy due to SMET compatibility and low score.''
                 # rs)"
    by simp
next
  assume h: "contract_term a \<noteq> 0 \<and> credit_score a < 30 \<and> credit_score a < refer_threshold cfg
      \<and> smet_compatible a = ''Yes''"
  then have t: "contract_term a \<noteq> 0" by simp
  let ?c = "(business_type a \<noteq> ''Limited Company'' \<and> years_trading a < 1)
                     \<or> (business_type a = ''Limited Company'' \<and> years_trading a < 2)
                     \<or> (payment_terms a \<noteq> ''14 Days DD'' \<and> payment_terms a \<noteq> ''14 Days BACS'')
                     \<or> (sic_risk a = ''High'' \<or> sic_risk a = ''Very High'')
                     \<or> unit_margin a < min_unit_margin cfg"
  let ?s1 = "credit_score_check_credit4 cfg a (''Approved'', [])"
  let ?s2 = "referral_checks_credit4 cfg a ?s1"
  from h have v1: "fst ?s1 = ''Approved with Yu Energy Only''"
    and r1: "snd ?s1 = [''Credit Score <30: Only Yu Energy permitted due to SMET compatibility'']"
    by (simp_all add: fst_credit_score_check_credit4 snd_credit_score_check_credit4)
  have v2: "fst ?s2 = (if ?c then ''Refer'' else ''Approved with Yu Energy Only'')"
    by (simp only: fst_referral_checks_credit4 v1)
  have r2: "\<exists>rs. snd ?s2 =
      ''Credit Score <30: Only Yu Energy permitted due to SMET compatibility'' # rs"
    by (simp only: snd_referral_checks_credit4 r1) simp
  then obtain rs where r2': "snd ?s2 =
      ''Credit Score <30: Only Yu Energy permitted due to SMET compatibility'' # rs" ..
  show "\<exists>ap rs e p t. run_decision_credit4 cfg matrix_df a now =
            Inr ((if ?c then ''Refer'' else ''Approved with Yu Energy Only''),
                 Some ap,
                 ''Credit Score <30: Only Yu Energy permitted due to SMET compatibility'' # rs,
                 e, p, t)"
    unfolding run_decision_credit4_unfold [OF t] Let_def v2 r2'
    by (cases ?c) simp_all
next
  assume h: "contract_term a \<noteq> 0 \<and> credit_score a < 30 \<and> smet_compatible a = ''Yes''"
  then have t: "contract_term a \<noteq> 0" by simp
  let ?s2 = "referral_checks_credit4 cfg a (credit_score_check_credit4 cfg a (''Approved'', []))"
  from h have "fst ?s2 \<noteq> ''Declined''"
    by (simp add: credit4_stage_simps)
  then show "\<exists>v ap rs e p t. run_decision_credit4 cfg matrix_df a now =
            Inr (v, ap, rs, e, p, t) \<and> v \<noteq> ''Declined''"
    by (simp add: run_decision_credit4_unfold [OF t] Let_def)
qed

text \<open>
  A score of 20 with a compatible meter: Approved in Credit17.py, the restricted approval
  in credit4.py, and Refer there for a limited company with one year of trading.
\<close>

theorem low_score_compatible_meter_witness:
  "run_decision_Credit17 example_limits (clean_Credit17\<lparr>creditsafe_score := 20\<rparr>)
     = Inr (''Approved'', Some ''Sales Manager'',
            [''Customer is only eligible with Yu Energy due to SMET compatibility and low score.'',
             ''Referral: Low credit score.''])
   \<and> run_decision_credit4 default_sidebar example_matrix
        (clean_credit4\<lparr>credit_score := 20\<rparr>) ''2025-07-01 09:00:00''
     = Inr (''Approved with Yu Energy Only'', Some ''Yu Energy Only'',
            [''Credit Score <30: Only Yu Energy permitted due to SMET compatibility''],
            1250, True, ''2025-07-01 09:00:00'')
   \<and> run_decision_credit4 default_sidebar example_matrix
        (clean_credit4\<lparr>credit_score := 20, years_trading := 1\<rparr>) ''2025-07-01 09:00:00''
     = Inr (''Refer'', Some ''Sales Manager'',
            [''Credit Score <30: Only Yu Energy permitted due to SMET compatibility'',
             ''Insufficient trading history for Limited Company''],
            1250, True, ''2025-07-01 09:00:00'')"
  using low_score_compatible_meter
          [of "clean_Credit17\<lparr>creditsafe_score := 20\<rparr>" example_limits default_sidebar
              example_matrix "''2025-07-01 09:00:00''"]
        low_score_compatible_meter
          [of "clean_credit4\<lparr>credit_score := 20\<rparr>" example_limits default_sidebar
              example_matrix "''2025-07-01 09:00:00''"]
        low_score_compatible_meter
          [of "clean_credit4\<lparr>credit_score := 20, years_trading := 1\<rparr>" example_limits
              default_sidebar example_matrix "''2025-07-01 09:00:00''"]
  by (simp add: run_decision_defs example_defs)

subsection \<open>Clean applications\<close>

text \<open>
  C7, as the claim states it, fails on credit4.py: a score of 70 is at or above the
  referral threshold of 60 and nothing else fires, yet the verdict is Refer with one
  reason, since the score is below the approval threshold of 80.
\<close>

theorem approved_with_no_reasons_counterexample:
  "60 \<le> credit_score (clean_credit4\<lparr>credit_score := 70\<rparr>)
   \<and> run_decision_credit4 default_sidebar example_matrix clean_credit4 ''2025-07-01 09:00:00''
     = Inr (''Approved'', Some ''Sales Manager'', [], 1250, True, ''2025-07-01 09:00:00'')
   \<and> run_decision_credit4 default_sidebar example_matrix
        (clean_credit4\<lparr>credit_score := 70\<rparr>) ''2025-07-01 09:00:00''
     = Inr (''Refer'', Some ''Sales Manager'', [''Credit Score requires referral''], 1250,
            True, ''2025-07-01 09:00:00'')"
  by (simp add: run_decision_defs example_defs)

text \<open>
  C7, amended. In Credit17.py, for every application with a score of at least 60 and no
  decline or referral condition triggered, the verdict is Approved and the reasons are
  empty. In credit4.py the same holds for scores at or above both the referral and the
  approval threshold, except that the reasons hold the Managing Director notice, and
  nothing else, when the resolved approver is the Managing Director.
\<close>

theorem approved_with_no_reasons:
  "(contract_term a \<noteq> 0 \<and> 60 \<le> creditsafe_score a \<and> has_ccjs a \<noteq> ''Yes''
      \<and> \<not> contract_value a / real_of_int (contract_term a) / 4
            > real_of_int (recommended_limit a)
      \<and> sic_risk a \<noteq> ''High'' \<and> sic_risk a \<noteq> ''Very High''
      \<and> payment_terms a = ''7 Days Direct Debit'' \<and> \<not> unit_margin a < 0.5
      \<and> \<not> uplift_standing a > 5.0 \<and> \<not> uplift_unit a > 1.0 \<and> \<not> years_trading a < 1
    \<longrightarrow> run_decision_Credit17 limits_df a =
          Inr (''Approved'',
               Some (get_required_approver limits_df (number_of_sites a) (contract_value a)
                       (annual_volume a)),
               []))
   \<and> (contract_term a \<noteq> 0 \<and> refer_threshold cfg \<le> credit_score a
      \<and> approve_threshold cfg \<le> credit_score a
      \<and> \<not> (business_type a \<noteq> ''Limited Company'' \<and> years_trading a < 1)
      \<and> \<not> (business_type a = ''Limited Company'' \<and> years_trading a < 2)
      \<and> (payment_terms a = ''14 Days DD'' \<or> payment_terms a = ''14 Days BACS'')
      \<and> sic_risk a \<noteq> ''High'' \<and> sic_risk a \<noteq> ''Very High''
      \<and> \<not> unit_margin a < min_unit_margin cfg
    \<longrightarrow> run_decision_credit4 cfg matrix_df a now =
          Inr (''Approved'',
               Some (approval_matrix_scan matrix_df (number_of_sites a) (contract_value a)
                       (annual_volume a) ''Managing Director''),
               (if approval_matrix_scan matrix_df (number_of_sites a) (contract_value a)
                     (annual_volume a) ''Managing Director'' = ''Managing Director''
                then [md_reason] else []),
               contract_value a / real_of_int (contract_term a) / 4,
               contract_value a / real_of_int (contract_term a) / 4 \<le> contract_value a,
               now))"
proof (intro conjI impI)
  assume h: "contract_term a \<noteq> 0 \<and> 60 \<le> creditsafe_score a \<and> has_ccjs a \<noteq> ''Yes''
      \<and> \<not> contract_value a / real_of_int (contract_term a) / 4
            > real_of_int (recommended_limit a)
      \<and> sic_risk a \<noteq> ''High'' \<and> sic_risk a \<noteq> ''Very High''
      \<and> payment_terms a = ''7 Days Direct Debit'' \<and> \<not> unit_margin a < 0.5
      \<and> \<not> uplift_standing a > 5.0 \<and> \<not> uplift_unit a > 1.0 \<and> \<not> years_trading a < 1"
  then have "run_decision_Credit17 limits_df a =
     Inr (''Approved'',
       Some (get_required_approver limits_df (number_of_sites a) (contract_value a)
               (annual_volume a)),
       (if creditsafe_score a < 30 \<and> smet_compatible a = ''Yes''
        then [''Customer is only eligible with Yu Energy due to SMET compatibility and low score.'']
        else [])
       @ (if creditsafe_score a < 60 then [''Referral: Low credit score.''] else [])
       @ (if sic_risk a = ''High'' \<or> sic_risk a = ''Very High''
          then [''Referral: High sector risk.''] else [])
       @ (if payment_terms a \<noteq> ''7 Days Direct Debit''
          then [''Referral: Non-standard payment terms.''] else [])
       @ (if unit_margin a < 0.5 then [''Referral: Unit margin below minimum.''] else [])
       @ (if uplift_standing a > 5.0 then [''Referral: Standing uplift too high.''] else [])
       @ (if uplift_unit a > 1.0 then [''Referral: Unit rate uplift too high.''] else [])
       @ (if years_trading a < 1 then [''Referral: Insufficient trading history.''] else []))"
    by (intro run_decision_Credit17_not_declined) simp_all
  with h show "run_decision_Credit17 limits_df a =
          Inr (''Approved'',
               Some (get_required_approver limits_df (number_of_sites a) (contract_value a)
                       (annual_volume a)),
               [])"
    by simp
next
  assume h: "contract_term a \<noteq> 0 \<and> refer_threshold cfg \<le> credit_score a
      \<and> approve_threshold cfg \<le> credit_score a
      \<and> \<not> (business_type a \<noteq> ''Limited Company'' \<and> years_trading a < 1)
      \<and> \<not> (business_type a = ''Limited Company'' \<and> years_trading a < 2)
      \<and> (payment_terms a = ''14 Days DD'' \<or> payment_terms a = ''14 Days BACS'')
      \<and> sic_risk a \<noteq> ''High'' \<and> sic_risk a \<noteq> ''Very High''
      \<and> \<not> unit_margin a < min_unit_margin cfg"
  then have t: "contract_term a \<noteq> 0" by simp
  let ?s2 = "referral_checks_credit4 cfg a (credit_score_check_credit4 cfg a (''Approved'', []))"
  from h have v: "fst ?s2 = ''Approved''" and r: "snd ?s2 = []"
    by (auto simp add: credit4_stage_simps)
  show "run_decision_credit4 cfg matrix_df a now =
          Inr (''Approved'',
               Some (approval_matrix_scan matrix_df (number_of_sites a) (contract_value a)
                       (annual_volume a) ''Managing Director''),
               (if approval_matrix_scan matrix_df (number_of_sites a) (contract_value a)
                     (annual_volume a) ''Managing Director'' = ''Managing Director''
                then [md_reason] else []),
               contract_value a / real_of_int (contract_term a) / 4,
               contract_value a / real_of_int (contract_term a) / 4 \<le> contract_value a,
               now)"
    by (simp add: run_decision_credit4_unfold [OF t] Let_def v r del: divide_divide_eq_left)
qed

text \<open>
  The clean form states are approved with no reasons; with an empty approval matrix
  credit4.py resolves to the Managing Director and appends the notice.
\<close>

theorem approved_with_no_reasons_witness:
  "run_decision_Credit17 example_limits clean_Credit17
     = Inr (''Approved'', Some ''Sales Manager'', [])
   \<and> run_decision_credit4 default_sidebar example_matrix clean_credit4 ''2025-07-01 09:00:00''
     = Inr (''Approved'', Some ''Sales Manager'', [], 1250, True, ''2025-07-01 09:00:00'')
   \<and> run_decision_credit4 default_sidebar [] clean_credit4 ''2025-07-01 09:00:00''
     = Inr (''Approved'', Some ''Managing Director'', [md_reason], 1250, True,
            ''2025-07-01 09:00:00'')"
  using approved_with_no_reasons
          [of clean_Credit17 example_limits default_sidebar example_matrix
              "''2025-07-01 09:00:00''"]
        approved_with_no_reasons
          [of clean_credit4 example_limits default_sidebar example_matrix
              "''2025-07-01 09:00:00''"]
        approved_with_no_reasons
          [of clean_credit4 example_limits default_sidebar "[]" "''2025-07-01 09:00:00''"]
  by (simp add: example_defs)

subsection \<open>Presence of the approver\<close>

text \<open>
  C5, as the claim states it, fails on Credit17.py: on the exception path (score 20,
  compatible meter, nothing declined) the approver is the role of the first row of the
  table, not an exception-path label.
\<close>

theorem approver_present_iff_not_declined_counterexample:
  "creditsafe_score (clean_Credit17\<lparr>creditsafe_score := 20\<rparr>) < 30
   \<and> smet_compatible (clean_Credit17\<lparr>creditsafe_score := 20\<rparr>) = ''Yes''
   \<and> run_decision_Credit17 example_limits (clean_Credit17\<lparr>creditsafe_score := 20\<rparr>)
     = Inr (''Approved'', Some ''Sales Manager'',
            [''Customer is only eligible with Yu Energy due to SMET compatibility and low score.'',
             ''Referral: Low credit score.''])
   \<and> Role (example_limits ! 0) = ''Sales Manager''"
  by (simp add: run_decision_defs example_defs)

text \<open>
  C5, amended. In both scripts the approver is present exactly when the verdict is not
  Declined. In Credit17.py it is always the role resolved from the table, also on the
  exception path. In credit4.py it is \<open>''Yu Energy Only''\<close> when the verdict is the
  restricted approval, and the role resolved from the table for every other verdict
  that is not Declined, Refer included.
\<close>

theorem approver_present_iff_not_declined:
  "(contract_term a \<noteq> 0 \<longrightarrow>
      (\<exists>v ap rs. run_decision_Credit17 limits_df a = Inr (v, ap, rs)
         \<and> (ap = None \<longleftrightarrow> v = ''Declined'')
         \<and> (v \<noteq> ''Declined'' \<longrightarrow>
              ap = Some (get_required_approver limits_df (number_of_sites a)
                           (contract_value a) (annual_volume a)))))
   \<and> (contract_term a \<noteq> 0 \<longrightarrow>
      (\<exists>v ap rs e p t. run_decision_credit4 cfg matrix_df a now = Inr (v, ap, rs, e, p, t)
         \<and> (ap = None \<longleftrightarrow> v = ''Declined'')
         \<and> (v = ''Approved with Yu Energy Only'' \<longrightarrow> ap = Some ''Yu Energy Only'')
         \<and> (v \<noteq> ''Declined'' \<and> v \<noteq> ''Approved with Yu Energy Only'' \<longrightarrow>
              ap = Some (approval_matrix_scan matrix_df (number_of_sites a)
                           (contract_value a) (annual_volume a) ''Managing Director''))))"
proof (intro conjI impI)
  assume t: "contract_term a \<noteq> 0"
  from run_decision_Credit17_cases [OF t, of limits_df]
  show "\<exists>v ap rs. run_decision_Credit17 limits_df a = Inr (v, ap, rs)
         \<and> (ap = None \<longleftrightarrow> v = ''Declined'')
         \<and> (v \<noteq> ''Declined'' \<longrightarrow>
              ap = Some (get_required_approver limits_df (number_of_sites a)
                           (contract_value a) (annual_volume a)))"
    by auto
next
  assume t: "contract_term a \<noteq> 0"
  show "\<exists>v ap rs e p t. run_decision_credit4 cfg matrix_df a now = Inr (v, ap, rs, e, p, t)
         \<and> (ap = None \<longleftrightarrow> v = ''Declined'')
         \<and> (v = ''Approved with Yu Energy Only'' \<longrightarrow> ap = Some ''Yu Energy Only'')
         \<and> (v \<noteq> ''Declined'' \<and> v \<noteq> ''Approved with Yu Energy Only'' \<longrightarrow>
              ap = Some (approval_matrix_scan matrix_df (number_of_sites a)
                           (contract_value a) (annual_volume a) ''Managing Director''))"
    by (simp add: run_decision_credit4_unfold [OF t] Let_def)
qed

text \<open>
  A declined application without approver, and approved, restricted, referred and
  declined ones in credit4.py.
\<close>

theorem approver_present_iff_not_declined_witness:
  "run_decision_Credit17 example_limits (clean_Credit17\<lparr>has_ccjs := ''Yes''\<rparr>)
     = Inr (''Declined'', None, [''Declined: CCJs/defaults present.''])
   \<and> run_decision_Credit17 example_limits clean_Credit17
     = Inr (''Approved'', Some ''Sales Manager'', [])
   \<and> run_decision_credit4 default_sidebar example_matrix
        (clean_credit4\<lparr>credit_score := 20\<rparr>) ''2025-07-01 09:00:00''
     = Inr (''Approved with Yu Energy Only'', Some ''Yu Energy Only'',
            [''Credit Score <30: Only Yu Energy permitted due to SMET compatibility''],
            1250, True, ''2025-07-01 09:00:00'')
   \<and> run_decision_credit4 default_sidebar example_matrix
        (clean_credit4\<lparr>credit_score := 70\<rparr>) ''2025-07-01 09:00:00''
     = Inr (''Refer'', Some ''Sales Manager'', [''Credit Score requires referral''], 1250,
            True, ''2025-07-01 09:00:00'')
   \<and> run_decision_credit4 default_sidebar example_matrix
        (clean_credit4\<lparr>credit_score := 45\<rparr>) ''2025-07-01 09:00:00''
     = Inr (''Declined'', None, [''Credit Score below minimum threshold''], 1250, True,
            ''2025-07-01 09:00:00'')"
  using approver_present_iff_not_declined
          [of "clean_Credit17\<lparr>has_ccjs := ''Yes''\<rparr>" example_limits default_sidebar
              example_matrix "''2025-07-01 09:00:00''"]
        approver_present_iff_not_declined
          [of "clean_credit4\<lparr>credit_score := 20\<rparr>" example_limits default_sidebar
              example_matrix "''2025-07-01 09:00:00''"]
  by (simp add: run_decision_defs example_defs)

end
